theory Spec2Isabelle
  imports Main
begin

section \<open>Python values and errors\<close>

text \<open>
  Every exception the modelled code can raise is a value of \<open>error\<close>; a call that can
  raise returns \<open>error + 'a\<close> with \<open>Inl\<close> for the exception.
  \<open>PrawError\<close> stands for whatever the PRAW client raises on a lookup that fails
  (nonexistent or inaccessible id), \<open>ConnectionError\<close> for a transport failure of
  \<open>requests.get\<close>, \<open>IntegrityError\<close> for a bulk insert the database rejects and
  \<open>PendingRollbackError\<close> for the \<open>session.commit()\<close> that follows a bulk write
  which raised.
\<close>

datatype error =
    TypeError
  | ValueError
  | AttributeError
  | ConnectionError
  | PrawError
  | IntegrityError
  | PendingRollbackError

text \<open>
  The value stored under \<open>params['before']\<close> and \<open>params['after']\<close>: a string when
  \<open>fetch_data\<close> built the query with \<open>strftime('%s')\<close>, an integer once a page's
  \<open>created_utc\<close> has been written back.
\<close>

datatype pyval = PStr string | PInt int

definition digit_of :: "char \<Rightarrow> nat option" where
  "digit_of c =
     (let code = (of_char c :: nat)
      in if 48 \<le> code \<and> code \<le> 57 then Some (code - 48) else None)"

fun digits_to_nat :: "nat \<Rightarrow> string \<Rightarrow> nat option" where
  "digits_to_nat acc [] = Some acc"
| "digits_to_nat acc (c # cs) =
     (case digit_of c of
        None \<Rightarrow> None
      | Some d \<Rightarrow> digits_to_nat (10 * acc + d) cs)"

text \<open>
  Python's \<open>int(x)\<close>: the identity on an integer; on a string an optional sign followed by
  at least one decimal digit, \<open>ValueError\<close> otherwise. (Surrounding blanks and digit
  separators, which \<open>int\<close> also accepts, do not occur in what \<open>strftime('%s')\<close> prints.)
\<close>

definition int_of_string :: "string \<Rightarrow> error + int" where
  "int_of_string s =
     (case s of
        [] \<Rightarrow> Inl ValueError
      | c # cs \<Rightarrow>
          (if c = CHR ''-'' then
             (case cs of
                [] \<Rightarrow> Inl ValueError
              | _ \<Rightarrow> (case digits_to_nat 0 cs of
                         None \<Rightarrow> Inl ValueError
                       | Some n \<Rightarrow> Inr (- int n)))
           else if c = CHR ''+'' then
             (case cs of
                [] \<Rightarrow> Inl ValueError
              | _ \<Rightarrow> (case digits_to_nat 0 cs of
                         None \<Rightarrow> Inl ValueError
                       | Some n \<Rightarrow> Inr (int n)))
           else
             (case digits_to_nat 0 (c # cs) of
                None \<Rightarrow> Inl ValueError
              | Some n \<Rightarrow> Inr (int n))))"

definition py_int :: "pyval \<Rightarrow> error + int" where
  "py_int v = (case v of PInt i \<Rightarrow> Inr i | PStr s \<Rightarrow> int_of_string s)"

text \<open>
  \<open>x -= before_decay\<close> on the stored cursor: integer subtraction on an integer,
  \<open>TypeError\<close> on a string (\<open>str - int\<close> is unsupported).
\<close>

definition before_decay :: int where
  "before_decay = 18000"

definition py_sub_decay :: "pyval \<Rightarrow> error + pyval" where
  "py_sub_decay v =
     (case v of PInt i \<Rightarrow> Inr (PInt (i - before_decay)) | PStr s \<Rightarrow> Inl TypeError)"

text \<open>
  \<open>datetime.strftime('%s')\<close>: the epoch seconds of the date in decimal. A date is
  modelled by its epoch seconds. \<open>digit_char\<close> is only applied to numbers below 10.
\<close>

definition digit_char :: "nat \<Rightarrow> char" where
  "digit_char d = ''0123456789'' ! d"

fun string_of_nat :: "nat \<Rightarrow> string" where
  "string_of_nat n =
     (if n < 10 then [digit_char n]
      else string_of_nat (n div 10) @ [digit_char (n mod 10)])"

definition strftime_s :: "int \<Rightarrow> string" where
  "strftime_s t = (if t < 0 then CHR ''-'' # string_of_nat (nat (- t)) else string_of_nat (nat t))"

section \<open>The Pushshift search endpoint and the paginated fetch\<close>

text \<open>One item of a page, with the fields \<open>fetch_data\<close> asks for.\<close>

record post =
  p_id :: string
  p_created_utc :: int
  p_subreddit :: string
  p_title :: string
  p_score :: int

text \<open>
  What one \<open>requests.get\<close> of the loop comes back with: a body whose \<open>'data'\<close> is a
  list of items (possibly empty), a body that \<open>r.json()['data']\<close> cannot read (any
  exception inside the \<open>try\<close> other than \<open>IndexError\<close>), or a transport failure of
  \<open>requests.get\<close> itself, which stands outside the \<open>try\<close>.
\<close>

datatype response = Page "post list" | BadBody | ConnError

text \<open>
  The request parameters \<open>get_submissions\<close> reads. \<open>limit\<close> is the integer
  \<open>fetch_data\<close> received.
\<close>

record params =
  q_ticker :: string
  q_subreddit :: "string list"
  q_before :: pyval
  q_after :: pyval
  q_limit :: int

text \<open>
  The \<open>while\<close> loop of \<open>get_submissions\<close> (reddit.py, lines 69-92). \<open>before\<close>,
  \<open>after\<close> and \<open>limit\<close> are the locals read once before the loop; \<open>pb\<close> is
  \<open>params['before']\<close>, the only cursor the body updates; \<open>pages i\<close> is the response
  to the \<open>i\<close>-th request. A loop that never exits is the value \<open>None\<close>.
  The result is the final \<open>params['before']\<close> and the accumulated items.
\<close>

partial_function (option) get_submissions_loop ::
  "(nat \<Rightarrow> response) \<Rightarrow> int \<Rightarrow> int \<Rightarrow> int \<Rightarrow> nat \<Rightarrow> pyval \<Rightarrow> post list
     \<Rightarrow> (error + pyval \<times> post list) option" where
  "get_submissions_loop pages before after limit i pb submissions =
     (if before > after \<and> int (length submissions) < limit then
        (case pages i of
           ConnError \<Rightarrow> Some (Inl ConnectionError)
         | BadBody \<Rightarrow> Some (Inr (pb, submissions))
         | Page data \<Rightarrow>
             (if data = [] then
                (case py_sub_decay pb of
                   Inl e \<Rightarrow> Some (Inl e)
                 | Inr pb' \<Rightarrow>
                     get_submissions_loop pages before after limit (Suc i) pb' submissions)
              else
                get_submissions_loop pages before after limit (Suc i)
                  (PInt (p_created_utc (last data))) (submissions @ data)))
      else Some (Inr (pb, submissions)))"

section \<open>The PRAW client and the other collaborators\<close>

record praw_comment =
  pc_created_utc :: int
  pc_id :: string
  pc_body :: string
  pc_score :: int

text \<open>An element of \<open>submission.comments\<close>: a comment, or a "load more comments" link.\<close>

datatype top_level = MoreComments | TopLevelComment praw_comment

text \<open>
  Everything outside the repository that the pipeline calls, as parameters:
  \<^item> \<open>pages\<close>: the response to the \<open>i\<close>-th page request of one \<open>get_submissions\<close> call;
  \<^item> \<open>submission_raises\<close>: whether \<open>reddit.submission(id=...)\<close> itself raises (a bad id);
  \<^item> \<open>submission_score\<close>, \<open>comment_score\<close>: the \<open>score\<close> attribute of a submission or
    a comment, \<open>None\<close> when the lookup raises (nonexistent or inaccessible id);
  \<^item> \<open>submission_comments\<close>: \<open>submission.comments\<close>, \<open>None\<close> when reading it raises;
  \<^item> \<open>subreddit_about\<close>: \<open>sub.name\<close> and \<open>sub.subscribers\<close> of a subreddit, \<open>None\<close>
    when the lookup raises;
  \<^item> \<open>clean_text\<close>: \<open>utils.strip_punctuation(x).lower()\<close>, whose code is not part of
    the sources.
\<close>

record env =
  pages :: "nat \<Rightarrow> response"
  submission_raises :: "string \<Rightarrow> bool"
  submission_score :: "string \<Rightarrow> int option"
  submission_comments :: "string \<Rightarrow> top_level list option"
  comment_score :: "string \<Rightarrow> int option"
  subreddit_about :: "string \<Rightarrow> (string \<times> int option) option"
  clean_text :: "string \<Rightarrow> string"

text \<open>
  A Python loop (or \<open>Series.apply\<close>) that computes one row per element and appends it:
  the first element whose computation raises ends the whole call with that exception.
\<close>

fun apply_rows :: "('a \<Rightarrow> error + 'b) \<Rightarrow> 'a list \<Rightarrow> error + 'b list" where
  "apply_rows f [] = Inr []"
| "apply_rows f (x # xs) =
     (case f x of
        Inl e \<Rightarrow> Inl e
      | Inr y \<Rightarrow> (case apply_rows f xs of Inl e \<Rightarrow> Inl e | Inr ys \<Rightarrow> Inr (y # ys)))"

text \<open>
  One iteration of \<open>get_submission_details\<close> with \<open>fields = ['id', 'score']\<close>:
  \<open>reddit.submission(id=...)\<close>, then \<open>getattr\<close> of \<open>id\<close> and \<open>score\<close>. Neither is
  inside a \<open>try\<close>.
\<close>

definition submission_details_row :: "env \<Rightarrow> string \<Rightarrow> error + string \<times> int" where
  "submission_details_row e submission_id =
     (if submission_raises e submission_id then Inl PrawError
      else
        (case submission_score e submission_id of
           None \<Rightarrow> Inl PrawError
         | Some sc \<Rightarrow> Inr (submission_id, sc)))"

text \<open>
  \<open>get_submission_details(ids, ['id', 'score'])\<close> (reddit.py, lines 218-241): one lookup
  per id, in order. The rows are the pairs \<open>(id, score)\<close>.
\<close>

definition get_submission_details :: "env \<Rightarrow> string list \<Rightarrow> error + (string \<times> int) list" where
  "get_submission_details e submission_ids = apply_rows (submission_details_row e) submission_ids"

definition comment_details_row :: "env \<Rightarrow> string \<Rightarrow> error + string \<times> int" where
  "comment_details_row e comment_id =
     (case comment_score e comment_id of
        None \<Rightarrow> Inl PrawError
      | Some sc \<Rightarrow> Inr (comment_id, sc))"

text \<open>\<open>get_comment_details(ids, ['id', 'score'])\<close> (reddit.py, lines 243-266), likewise.\<close>

definition get_comment_details :: "env \<Rightarrow> string list \<Rightarrow> error + (string \<times> int) list" where
  "get_comment_details e comment_ids = apply_rows (comment_details_row e) comment_ids"

text \<open>
  A row of the data frame \<open>get_submissions\<close> returns: the page's fields with \<open>id\<close>
  renamed to \<open>submission_id\<close>, the refreshed score and the ticker.
\<close>

record submission =
  s_submission_id :: string
  s_created_utc :: int
  s_subreddit :: string
  s_title :: string
  s_score :: int
  s_ticker :: string

text \<open>
  \<open>pd.merge(left, right, on='id')\<close> followed by dropping \<open>score_x\<close> and renaming
  \<open>score_y\<close>: an inner join that keeps the order of the left rows and pairs each with
  every right row of the same id.
\<close>

definition merge_on_id :: "post list \<Rightarrow> string \<Rightarrow> (string \<times> int) list \<Rightarrow> submission list" where
  "merge_on_id left ticker right =
     concat (map (\<lambda>p. map (\<lambda>r. \<lparr>s_submission_id = p_id p, s_created_utc = p_created_utc p,
                                  s_subreddit = p_subreddit p, s_title = p_title p,
                                  s_score = snd r, s_ticker = ticker\<rparr>)
                          (filter (\<lambda>r. fst r = p_id p) right)) left)"

text \<open>\<open>RedditAPI._process_submissions\<close> (reddit.py, lines 152-186).\<close>

definition api_process_submissions :: "env \<Rightarrow> post list \<Rightarrow> string \<Rightarrow> error + submission list" where
  "api_process_submissions e submissions ticker =
     (case get_submission_details e (map p_id submissions) of
        Inl x \<Rightarrow> Inl x
      | Inr updated_scores \<Rightarrow> Inr (merge_on_id submissions ticker updated_scores))"

text \<open>
  What \<open>get_submissions\<close> returns: the untouched Python list \<open>[]\<close> when nothing was
  accumulated (line 98 converts only a non-empty list), a data frame otherwise.
\<close>

datatype fetched = EmptyList | DataFrame "submission list"

text \<open>\<open>RedditAPI.get_submissions\<close> (reddit.py, lines 39-101).\<close>

definition get_submissions :: "env \<Rightarrow> params \<Rightarrow> (error + fetched) option" where
  "get_submissions e ps =
     (case py_int (q_after ps) of
        Inl x \<Rightarrow> Some (Inl x)
      | Inr after \<Rightarrow>
          (case py_int (q_before ps) of
             Inl x \<Rightarrow> Some (Inl x)
           | Inr before \<Rightarrow>
               (case get_submissions_loop (pages e) before after (q_limit ps) 0 (q_before ps) [] of
                  None \<Rightarrow> None
                | Some (Inl x) \<Rightarrow> Some (Inl x)
                | Some (Inr (pb, submissions)) \<Rightarrow>
                    (if submissions = [] then Some (Inr EmptyList)
                     else
                       (case api_process_submissions e submissions (q_ticker ps) of
                          Inl x \<Rightarrow> Some (Inl x)
                        | Inr df \<Rightarrow> Some (Inr (DataFrame df)))))))"

text \<open>A row of the data frame \<open>get_comments\<close> returns.\<close>

record comment =
  c_created_utc :: int
  c_submission_id :: string
  c_comment_id :: string
  c_body :: string
  c_score :: int

definition comment_rows :: "string \<Rightarrow> top_level list \<Rightarrow> comment list" where
  "comment_rows submission_id forest =
     concat (map (\<lambda>t. case t of
                          MoreComments \<Rightarrow> []
                        | TopLevelComment c \<Rightarrow>
                            [\<lparr>c_created_utc = pc_created_utc c, c_submission_id = submission_id,
                              c_comment_id = pc_id c, c_body = pc_body c, c_score = pc_score c\<rparr>])
                 forest)"

text \<open>
  \<open>get_comments\<close> (reddit.py, lines 103-150): a submission whose constructor raises is
  skipped with a warning (the \<open>try\<close> of lines 126-131); reading \<open>submission.comments\<close>
  is outside that \<open>try\<close>.
\<close>

fun get_comments :: "env \<Rightarrow> string list \<Rightarrow> error + comment list" where
  "get_comments e [] = Inr []"
| "get_comments e (submission_id # ids) =
     (if submission_raises e submission_id then get_comments e ids
      else
        (case submission_comments e submission_id of
           None \<Rightarrow> Inl PrawError
         | Some forest \<Rightarrow>
             (case get_comments e ids of
                Inl x \<Rightarrow> Inl x
              | Inr rows \<Rightarrow> Inr (comment_rows submission_id forest @ rows))))"

text \<open>A row of \<open>get_subreddit_details\<close>: \<open>name\<close>, \<open>subreddit_id\<close>, \<open>subscribers\<close>.\<close>

record subreddit_info =
  si_name :: string
  si_subreddit_id :: string
  si_subscribers :: "int option"

definition subreddit_details_row :: "env \<Rightarrow> string \<Rightarrow> error + subreddit_info" where
  "subreddit_details_row e subreddit =
     (case subreddit_about e subreddit of
        None \<Rightarrow> Inl PrawError
      | Some (fullname, subscribers) \<Rightarrow>
          Inr \<lparr>si_name = subreddit, si_subreddit_id = fullname, si_subscribers = subscribers\<rparr>)"

text \<open>\<open>get_subreddit_details\<close> (reddit.py, lines 188-216).\<close>

definition get_subreddit_details :: "env \<Rightarrow> string list \<Rightarrow> error + subreddit_info list" where
  "get_subreddit_details e subreddits = apply_rows (subreddit_details_row e) subreddits"

section \<open>The store\<close>

text \<open>
  The three tables of models.py that the pipeline reads and writes, with their columns.
  \<open>id\<close> is the autoincremented primary key. The column \<open>subreddit_id\<close> of
  \<open>reddit_submissions\<close> is declared \<open>String(32)\<close> with a foreign key to
  \<open>subreddits.subreddit_id\<close>; a \<open>cell\<close> records whether the value written into it is a
  Python integer or a string.
\<close>

datatype cell = IntCell int | StrCell string

record subreddit_row =
  sr_id :: int
  sr_name :: string
  sr_subreddit_id :: string
  sr_subscribers :: int

record submission_row =
  sm_id :: int
  sm_ticker :: string
  sm_subreddit_id :: cell
  sm_submission_id :: string
  sm_created_utc :: int
  sm_title :: string
  sm_score :: int

record comment_row =
  cm_id :: int
  cm_submission_id :: string
  cm_comment_id :: string
  cm_created_utc :: int
  cm_cleaned_comment :: string
  cm_score :: int

record db =
  subreddits :: "subreddit_row list"
  reddit_submissions :: "submission_row list"
  reddit_comments :: "comment_row list"

datatype model = Subreddits | RedditSubmissions | RedditComments

text \<open>
  The calls the code makes on the store, in the order it makes them: opening a session
  (\<open>__enter__\<close>), \<open>session.bulk_insert_mappings\<close> and \<open>session.bulk_update_mappings\<close>
  (with the number of mappings), \<open>session.commit()\<close>, \<open>session.close()\<close> and
  \<open>pd.read_sql\<close>.
\<close>

datatype call =
    SessionOpen
  | BulkInsert model nat
  | BulkUpdate model nat
  | Commit
  | Close
  | ReadSql model

text \<open>
  A step of the pipeline on the store: the value or the exception, the store it leaves,
  and the store calls it made.
\<close>

type_synonym 'a io = "(error + 'a) \<times> db \<times> call list"

definition and_then :: "'a io \<Rightarrow> ('a \<Rightarrow> db \<Rightarrow> 'b io) \<Rightarrow> 'b io" where
  "and_then m f =
     (case m of
        (Inl x, d, cs) \<Rightarrow> (Inl x, d, cs)
      | (Inr v, d, cs) \<Rightarrow> (case f v d of (r, d', cs') \<Rightarrow> (r, d', cs @ cs')))"

text \<open>
  \<open>with self.Connection as session: body\<close> (connection.py, lines 11-21): \<open>__enter__\<close>
  opens a session; \<open>__exit__\<close> calls \<open>session.commit()\<close> and then \<open>session.close()\<close>
  whether or not the body raised. When the bulk write of the body has raised, the
  session library has already rolled its transaction back, and the \<open>commit\<close> of
  \<open>__exit__\<close> raises \<open>PendingRollbackError\<close>: \<open>close\<close> is not reached, and that
  exception is the one that leaves the \<open>with\<close> statement.
\<close>

definition with_session :: "(db \<Rightarrow> unit io) \<Rightarrow> db \<Rightarrow> unit io" where
  "with_session body d =
     (case body d of
        (Inl x, d', cs) \<Rightarrow> (Inl PendingRollbackError, d', SessionOpen # cs @ [Commit])
      | (Inr u, d', cs) \<Rightarrow> (Inr u, d', SessionOpen # cs @ [Commit, Close]))"

text \<open>
  \<open>get_values(model, filters)\<close> (database_manager.py, lines 97-109): a session that only
  builds the query, then \<open>pd.read_sql\<close>. One definition per table.
\<close>

definition get_values_calls :: "model \<Rightarrow> call list" where
  "get_values_calls m = [SessionOpen, Commit, Close, ReadSql m]"

definition get_values_subreddits :: "(subreddit_row \<Rightarrow> bool) \<Rightarrow> db \<Rightarrow> subreddit_row list io" where
  "get_values_subreddits filters d =
     (Inr (filter filters (subreddits d)), d, get_values_calls Subreddits)"

definition get_values_submissions :: "(submission_row \<Rightarrow> bool) \<Rightarrow> db \<Rightarrow> submission_row list io" where
  "get_values_submissions filters d =
     (Inr (filter filters (reddit_submissions d)), d, get_values_calls RedditSubmissions)"

definition get_values_comments :: "(comment_row \<Rightarrow> bool) \<Rightarrow> db \<Rightarrow> comment_row list io" where
  "get_values_comments filters d =
     (Inr (filter filters (reddit_comments d)), d, get_values_calls RedditComments)"

text \<open>\<open>filters=None\<close>: every row.\<close>

definition no_filters :: "'a \<Rightarrow> bool" where
  "no_filters r = True"

text \<open>
  The database side of a bulk insert: the primary keys are assigned in order from the
  largest one in the table, and the \<open>unique=True\<close> column of the table is enforced
  (a key already in the table, or twice in the batch, is an \<open>IntegrityError\<close>). The
  session library rolls the transaction back when the bulk call raises, so a rejected
  batch leaves the table as it was. Foreign keys are not enforced, and values outside
  the range of a column are not modelled.
\<close>

definition next_id :: "int list \<Rightarrow> int" where
  "next_id ids = fold max ids 0 + 1"

fun number_from :: "int \<Rightarrow> 'a list \<Rightarrow> (int \<times> 'a) list" where
  "number_from n [] = []"
| "number_from n (x # xs) = (n, x) # number_from (n + 1) xs"

definition unique_ok :: "string list \<Rightarrow> string list \<Rightarrow> bool" where
  "unique_ok stored new = (distinct new \<and> list_all (\<lambda>k. k \<notin> set stored) new)"

text \<open>The mappings of a bulk insert into \<open>subreddits\<close>: name, subreddit_id, subscribers.\<close>

definition bulk_insert_subreddits :: "(string \<times> string \<times> int) list \<Rightarrow> db \<Rightarrow> unit io" where
  "bulk_insert_subreddits mappings d =
     (if unique_ok (map sr_subreddit_id (subreddits d)) (map (\<lambda>m. fst (snd m)) mappings) then
        (Inr (),
         d\<lparr>subreddits := subreddits d @
              map (\<lambda>(i, m). \<lparr>sr_id = i, sr_name = fst m, sr_subreddit_id = fst (snd m),
                              sr_subscribers = snd (snd m)\<rparr>)
                (number_from (next_id (map sr_id (subreddits d))) mappings)\<rparr>,
         [BulkInsert Subreddits (length mappings)])
      else (Inl IntegrityError, d, [BulkInsert Subreddits (length mappings)]))"

text \<open>
  A row of the frame \<open>process_submissions\<close> returns: the column \<open>subreddit\<close> has been
  overwritten with \<open>stored_subreddits.id\<close> and renamed to \<open>subreddit_id\<close>.
\<close>

record new_submission =
  n_submission_id :: string
  n_created_utc :: int
  n_subreddit_id :: int
  n_title :: string
  n_score :: int
  n_ticker :: string

definition bulk_insert_submissions :: "new_submission list \<Rightarrow> db \<Rightarrow> unit io" where
  "bulk_insert_submissions mappings d =
     (if unique_ok (map sm_submission_id (reddit_submissions d)) (map n_submission_id mappings) then
        (Inr (),
         d\<lparr>reddit_submissions := reddit_submissions d @
              map (\<lambda>(i, m). \<lparr>sm_id = i, sm_ticker = n_ticker m,
                              sm_subreddit_id = IntCell (n_subreddit_id m),
                              sm_submission_id = n_submission_id m,
                              sm_created_utc = n_created_utc m, sm_title = n_title m,
                              sm_score = n_score m\<rparr>)
                (number_from (next_id (map sm_id (reddit_submissions d))) mappings)\<rparr>,
         [BulkInsert RedditSubmissions (length mappings)])
      else (Inl IntegrityError, d, [BulkInsert RedditSubmissions (length mappings)]))"

text \<open>A row of the frame \<open>process_comments\<close> returns: \<open>body\<close> cleaned and renamed.\<close>

record new_comment =
  nc_created_utc :: int
  nc_submission_id :: string
  nc_comment_id :: string
  nc_cleaned_comment :: string
  nc_score :: int

definition bulk_insert_comments :: "new_comment list \<Rightarrow> db \<Rightarrow> unit io" where
  "bulk_insert_comments mappings d =
     (if unique_ok (map cm_comment_id (reddit_comments d)) (map nc_comment_id mappings) then
        (Inr (),
         d\<lparr>reddit_comments := reddit_comments d @
              map (\<lambda>(i, m). \<lparr>cm_id = i, cm_submission_id = nc_submission_id m,
                              cm_comment_id = nc_comment_id m,
                              cm_created_utc = nc_created_utc m,
                              cm_cleaned_comment = nc_cleaned_comment m,
                              cm_score = nc_score m\<rparr>)
                (number_from (next_id (map cm_id (reddit_comments d))) mappings)\<rparr>,
         [BulkInsert RedditComments (length mappings)])
      else (Inl IntegrityError, d, [BulkInsert RedditComments (length mappings)]))"

text \<open>
  \<open>insert_values(model, values)\<close> (database_manager.py, lines 42-64), one definition per
  table. The values are always data frames here, so the \<open>TypeError\<close> branch of line 64
  is not reached.
\<close>

definition insert_values_subreddits :: "(string \<times> string \<times> int) list \<Rightarrow> db \<Rightarrow> unit io" where
  "insert_values_subreddits vals d = with_session (bulk_insert_subreddits vals) d"

definition insert_values_submissions :: "new_submission list \<Rightarrow> db \<Rightarrow> unit io" where
  "insert_values_submissions vals d = with_session (bulk_insert_submissions vals) d"

definition insert_values_comments :: "new_comment list \<Rightarrow> db \<Rightarrow> unit io" where
  "insert_values_comments vals d = with_session (bulk_insert_comments vals) d"

text \<open>
  \<open>update_values(model, values, on)\<close> (database_manager.py, lines 67-95) with \<open>values\<close>
  a frame of the columns \<open>on\<close> and \<open>score\<close>. \<open>pd.merge(original, values, on=on)\<close>
  is an inner join in the order of \<open>original\<close>; the column loop drops \<open>score_x\<close>,
  renames \<open>score_y\<close> to \<open>score\<close> and drops every other column but \<open>id\<close>, so each
  mapping is a pair of the primary key and the new score. When both frames are empty
  the key column read from the table has dtype \<open>object\<close> and the one built from empty
  lists has dtype \<open>float64\<close>, and \<open>pd.merge\<close> raises \<open>ValueError\<close>; with one frame
  empty pandas skips that check.
\<close>

definition merge_scores ::
  "('r \<Rightarrow> string) \<Rightarrow> ('r \<Rightarrow> int) \<Rightarrow> 'r list \<Rightarrow> (string \<times> int) list
     \<Rightarrow> error + (int \<times> int) list" where
  "merge_scores key pk original vals =
     (if original = [] \<and> vals = [] then Inl ValueError
      else
        Inr (concat (map (\<lambda>r. map (\<lambda>v. (pk r, snd v)) (filter (\<lambda>v. fst v = key r) vals))
                       original)))"

text \<open>
  \<open>session.bulk_update_mappings\<close>: each mapping, in order, sets \<open>score\<close> where
  \<open>id\<close> matches. No constraint of models.py bears on \<open>score\<close>, so the update is
  never rejected.
\<close>

definition bulk_update_submissions :: "(int \<times> int) list \<Rightarrow> db \<Rightarrow> unit io" where
  "bulk_update_submissions mappings d =
     (Inr (),
      d\<lparr>reddit_submissions :=
           fold (\<lambda>m rows. map (\<lambda>r. if sm_id r = fst m then r\<lparr>sm_score := snd m\<rparr> else r) rows)
             mappings (reddit_submissions d)\<rparr>,
      [BulkUpdate RedditSubmissions (length mappings)])"

definition bulk_update_comments :: "(int \<times> int) list \<Rightarrow> db \<Rightarrow> unit io" where
  "bulk_update_comments mappings d =
     (Inr (),
      d\<lparr>reddit_comments :=
           fold (\<lambda>m rows. map (\<lambda>r. if cm_id r = fst m then r\<lparr>cm_score := snd m\<rparr> else r) rows)
             mappings (reddit_comments d)\<rparr>,
      [BulkUpdate RedditComments (length mappings)])"

definition update_values_submissions :: "(string \<times> int) list \<Rightarrow> db \<Rightarrow> unit io" where
  "update_values_submissions vals d =
     and_then (get_values_submissions no_filters d)
       (\<lambda>original d1.
          case merge_scores sm_submission_id sm_id original vals of
            Inl x \<Rightarrow> (Inl x, d1, [])
          | Inr merged \<Rightarrow> with_session (bulk_update_submissions merged) d1)"

definition update_values_comments :: "(string \<times> int) list \<Rightarrow> db \<Rightarrow> unit io" where
  "update_values_comments vals d =
     and_then (get_values_comments no_filters d)
       (\<lambda>original d1.
          case merge_scores cm_comment_id cm_id original vals of
            Inl x \<Rightarrow> (Inl x, d1, [])
          | Inr merged \<Rightarrow> with_session (bulk_update_comments merged) d1)"

section \<open>RedditManager\<close>

text \<open>\<open>fillna(0)\<close> on the \<open>subscribers\<close> column.\<close>

definition fillna :: "subreddit_info \<Rightarrow> string \<times> string \<times> int" where
  "fillna i =
     (si_name i, si_subreddit_id i, (case si_subscribers i of None \<Rightarrow> 0 | Some n \<Rightarrow> n))"

text \<open>
  \<open>update_subreddits(subreddits_list, update_all)\<close> (platform_managers.py, lines 61-110).
  \<open>list(set(...))\<close> is modelled by \<open>remdups\<close> (the order of a Python set is not
  specified). The \<open>update_all\<close> branch calls \<open>database_manager.update_table_values\<close>,
  a method \<open>DatabaseManager\<close> does not have.
\<close>

definition update_subreddits :: "env \<Rightarrow> string list \<Rightarrow> bool \<Rightarrow> db \<Rightarrow> unit io" where
  "update_subreddits e subreddits_list update_all d =
     and_then (get_values_subreddits no_filters d)
       (\<lambda>stored_subreddits d1.
          if update_all then
            (case get_subreddit_details e (map sr_name stored_subreddits) of
               Inl x \<Rightarrow> (Inl x, d1, [])
             | Inr updated_subreddits \<Rightarrow> (Inl AttributeError, d1, []))
          else if subreddits_list \<noteq> [] then
            (let existing_subs = map sr_name stored_subreddits;
                 new_subs = remdups (filter (\<lambda>sub. sub \<notin> set existing_subs) subreddits_list)
             in if new_subs \<noteq> [] then
                  (case get_subreddit_details e new_subs of
                     Inl x \<Rightarrow> (Inl x, d1, [])
                   | Inr new_sub_info \<Rightarrow> insert_values_subreddits (map fillna new_sub_info) d1)
                else (Inr (), d1, []))
          else (Inr (), d1, []))"

text \<open>\<open>Series.item()\<close>: the only element, \<open>ValueError\<close> unless there is exactly one.\<close>

definition item :: "'a list \<Rightarrow> error + 'a" where
  "item xs = (case xs of [x] \<Rightarrow> Inr x | _ \<Rightarrow> Inl ValueError)"

text \<open>
  Lines 142-145 of \<open>process_submissions\<close> on one row:
  \<open>stored_subreddits.id[stored_subreddits.name == x].item()\<close> replaces the subreddit name.
\<close>

definition subreddit_to_id :: "subreddit_row list \<Rightarrow> submission \<Rightarrow> error + new_submission" where
  "subreddit_to_id stored_subreddits r =
     (case item (map sr_id (filter (\<lambda>s. sr_name s = s_subreddit r) stored_subreddits)) of
        Inl x \<Rightarrow> Inl x
      | Inr i \<Rightarrow>
          Inr \<lparr>n_submission_id = s_submission_id r, n_created_utc = s_created_utc r,
               n_subreddit_id = i, n_title = s_title r, n_score = s_score r,
               n_ticker = s_ticker r\<rparr>)"

text \<open>
  \<open>RedditManager.process_submissions\<close> (platform_managers.py, lines 112-153). The store is
  read before \<open>submissions.submission_id\<close> is evaluated, which is an \<open>AttributeError\<close>
  on a Python list.
\<close>

definition process_submissions :: "env \<Rightarrow> fetched \<Rightarrow> db \<Rightarrow> new_submission list io" where
  "process_submissions e submissions d =
     and_then (get_values_submissions no_filters d)
       (\<lambda>stored d1.
          case submissions of
            EmptyList \<Rightarrow> (Inl AttributeError, d1, [])
          | DataFrame rows \<Rightarrow>
              (let new = filter (\<lambda>r. s_submission_id r \<notin> set (map sm_submission_id stored)) rows
               in if new = [] then (Inr [], d1, [])
                  else
                    and_then (update_subreddits e (map s_subreddit new) False d1)
                      (\<lambda>u d2.
                         and_then (get_values_subreddits no_filters d2)
                           (\<lambda>stored_subreddits d3.
                              case apply_rows (subreddit_to_id stored_subreddits) new of
                                Inl x \<Rightarrow> (Inl x, d3, [])
                              | Inr mapped \<Rightarrow>
                                  (Inr (map (\<lambda>r. r\<lparr>n_title := clean_text e (n_title r)\<rparr>) mapped),
                                   d3, [])))))"

text \<open>
  Lines 176-182 of \<open>process_comments\<close> on one row: \<open>body\<close> is renamed to
  \<open>cleaned_comment\<close> and cleaned.
\<close>

definition cleaned_comment :: "env \<Rightarrow> comment \<Rightarrow> new_comment" where
  "cleaned_comment e c =
     \<lparr>nc_created_utc = c_created_utc c, nc_submission_id = c_submission_id c,
      nc_comment_id = c_comment_id c, nc_cleaned_comment = clean_text e (c_body c),
      nc_score = c_score c\<rparr>"

text \<open>\<open>RedditManager.process_comments\<close> (platform_managers.py, lines 155-184).\<close>

definition process_comments :: "env \<Rightarrow> comment list \<Rightarrow> db \<Rightarrow> new_comment list io" where
  "process_comments e comments d =
     and_then (get_values_comments no_filters d)
       (\<lambda>stored d1.
          let new = filter (\<lambda>c. c_comment_id c \<notin> set (map cm_comment_id stored)) comments
          in if new = [] then (Inr [], d1, [])
             else (Inr (map (cleaned_comment e) new), d1, []))"

text \<open>\<open>RedditManager.update_comments\<close> (platform_managers.py, lines 241-263).\<close>

definition update_comments :: "env \<Rightarrow> comment list \<Rightarrow> db \<Rightarrow> unit io" where
  "update_comments e comments d =
     (case get_comment_details e (map c_comment_id comments) of
        Inl x \<Rightarrow> (Inl x, d, [])
      | Inr updated_comments \<Rightarrow> update_values_comments updated_comments d)"

text \<open>
  Line 236 of \<open>update_submissions\<close>:
  \<open>comments[~comments.comment_id.isin(processed_comments.comment_id)]\<close>.
\<close>

definition old_comments :: "comment list \<Rightarrow> new_comment list \<Rightarrow> comment list" where
  "old_comments comments processed_comments =
     filter (\<lambda>c. c_comment_id c \<notin> set (map nc_comment_id processed_comments)) comments"

text \<open>
  The body of the loop of \<open>update_submissions\<close> for one ticker (platform_managers.py,
  lines 198-239); \<open>daterange\<close> is the pair of bounds of \<open>between\<close>, both inclusive.
\<close>

definition update_submissions_ticker :: "env \<Rightarrow> string \<Rightarrow> int \<times> int \<Rightarrow> db \<Rightarrow> unit io" where
  "update_submissions_ticker e ticker daterange d =
     and_then
       (get_values_submissions
          (\<lambda>r. sm_ticker r = ticker \<and> fst daterange \<le> sm_created_utc r
                \<and> sm_created_utc r \<le> snd daterange) d)
       (\<lambda>matching d1.
          let submission_ids = map sm_submission_id matching in
          case get_submission_details e submission_ids of
            Inl x \<Rightarrow> (Inl x, d1, [])
          | Inr updated_submissions \<Rightarrow>
              and_then (update_values_submissions updated_submissions d1)
                (\<lambda>u d2.
                   case get_comments e submission_ids of
                     Inl x \<Rightarrow> (Inl x, d2, [])
                   | Inr comments \<Rightarrow>
                       and_then (process_comments e comments d2)
                         (\<lambda>processed_comments d3.
                            and_then
                              (if processed_comments \<noteq> []
                               then insert_values_comments processed_comments d3
                               else (Inr (), d3, []))
                              (\<lambda>u d4.
                                 if old_comments comments processed_comments \<noteq> []
                                 then update_comments e (old_comments comments processed_comments) d4
                                 else (Inr (), d4, [])))))"

text \<open>\<open>RedditManager.update_submissions\<close> (platform_managers.py, lines 186-239).\<close>

fun update_submissions :: "env \<Rightarrow> string list \<Rightarrow> int \<times> int \<Rightarrow> db \<Rightarrow> unit io" where
  "update_submissions e [] daterange d = (Inr (), d, [])"
| "update_submissions e (ticker # tickers) daterange d =
     and_then (update_submissions_ticker e ticker daterange d)
       (\<lambda>u d1. update_submissions e tickers daterange d1)"

text \<open>
  The statements of \<open>fetch_data\<close> after the call of \<open>get_submissions\<close>
  (platform_managers.py, lines 300-324).
\<close>

definition store_fetched :: "env \<Rightarrow> fetched \<Rightarrow> db \<Rightarrow> unit io" where
  "store_fetched e submissions d =
     and_then (process_submissions e submissions d)
       (\<lambda>processed_submissions d1.
          if processed_submissions \<noteq> [] then
            and_then (insert_values_submissions processed_submissions d1)
              (\<lambda>u d2.
                 case get_comments e (map n_submission_id processed_submissions) of
                   Inl x \<Rightarrow> (Inl x, d2, [])
                 | Inr comments \<Rightarrow>
                     and_then (process_comments e comments d2)
                       (\<lambda>processed_comments d3.
                          if processed_comments \<noteq> []
                          then insert_values_comments processed_comments d3
                          else (Inr (), d3, [])))
          else (Inr (), d1, []))"

text \<open>
  \<open>RedditManager.fetch_data\<close> (platform_managers.py, lines 265-324). \<open>before\<close> and
  \<open>after\<close> are dates, given by their epoch seconds; the query carries them as the
  strings \<open>strftime('%s')\<close> prints. \<open>None\<close>: the call does not return.
\<close>

definition fetch_data ::
  "env \<Rightarrow> string \<Rightarrow> int \<Rightarrow> int \<Rightarrow> int \<Rightarrow> string list \<Rightarrow> db \<Rightarrow> unit io option" where
  "fetch_data e ticker limit before after subreddit_names d =
     (case get_submissions e
             \<lparr>q_ticker = ticker, q_subreddit = subreddit_names,
              q_before = PStr (strftime_s before), q_after = PStr (strftime_s after),
              q_limit = limit\<rparr> of
        None \<Rightarrow> None
      | Some (Inl x) \<Rightarrow> Some (Inl x, d, [])
      | Some (Inr submissions) \<Rightarrow> Some (store_fetched e submissions d))"

section \<open>Example data\<close>

definition example_post :: post where
  "example_post =
     \<lparr>p_id = ''a3'', p_created_utc = 90000, p_subreddit = ''wallstreetbets'',
      p_title = ''GME to the moon!'', p_score = 3\<rparr>"

definition comment_c1 :: praw_comment where
  "comment_c1 = \<lparr>pc_created_utc = 50010, pc_id = ''c1'', pc_body = ''Buy!'', pc_score = 5\<rparr>"

definition comment_c2 :: praw_comment where
  "comment_c2 = \<lparr>pc_created_utc = 50020, pc_id = ''c2'', pc_body = ''Hold.'', pc_score = 9\<rparr>"

text \<open>
  A source whose first page holds one post and whose later pages are empty; every lookup
  succeeds except those of the id \<open>gone\<close>.
\<close>

definition example_env :: env where
  "example_env =
     \<lparr>pages = (\<lambda>i. if i = 0 then Page [example_post] else Page []),
      submission_raises = (\<lambda>i. False),
      submission_score = (\<lambda>i. if i = ''gone'' then None else Some 7),
      submission_comments =
        (\<lambda>i. Some [TopLevelComment comment_c1, MoreComments, TopLevelComment comment_c2]),
      comment_score = (\<lambda>i. if i = ''gone'' then None else Some 6),
      subreddit_about = (\<lambda>n. Some (''t5_2th52'', Some 100)),
      clean_text = (\<lambda>s. s)\<rparr>"

text \<open>The same source with every page empty.\<close>

definition empty_pages_env :: env where
  "empty_pages_env = example_env\<lparr>pages := (\<lambda>i. Page [])\<rparr>"

definition empty_db :: db where
  "empty_db = \<lparr>subreddits = [], reddit_submissions = [], reddit_comments = []\<rparr>"

text \<open>A store with one subreddit, one submission of GME and one comment on it.\<close>

definition example_db :: db where
  "example_db =
     \<lparr>subreddits =
        [\<lparr>sr_id = 1, sr_name = ''wallstreetbets'', sr_subreddit_id = ''t5_2th52'',
          sr_subscribers = 100\<rparr>],
      reddit_submissions =
        [\<lparr>sm_id = 1, sm_ticker = ''GME'', sm_subreddit_id = IntCell 1,
          sm_submission_id = ''a1'', sm_created_utc = 50000, sm_title = ''gme squeeze'',
          sm_score = 3\<rparr>],
      reddit_comments =
        [\<lparr>cm_id = 1, cm_submission_id = ''a1'', cm_comment_id = ''c1'',
          cm_created_utc = 50010, cm_cleaned_comment = ''buy'', cm_score = 5\<rparr>]\<rparr>"

text \<open>
  The same source, except that the comment \<open>c2\<close> is listed twice under every
  submission.
\<close>

definition repeating_env :: env where
  "repeating_env =
     example_env\<lparr>submission_comments :=
       (\<lambda>i. Some [TopLevelComment comment_c1, TopLevelComment comment_c2,
                   TopLevelComment comment_c2])\<rparr>"

text \<open>
  What \<open>fetch_data\<close> leaves in an empty store when the source is \<open>example_env\<close>, and
  the store calls it makes on the way.
\<close>

definition example_db_after_fetch :: db where
  "example_db_after_fetch =
     \<lparr>subreddits =
        [\<lparr>sr_id = 1, sr_name = ''wallstreetbets'', sr_subreddit_id = ''t5_2th52'',
          sr_subscribers = 100\<rparr>],
      reddit_submissions =
        [\<lparr>sm_id = 1, sm_ticker = ''GME'', sm_subreddit_id = IntCell 1,
          sm_submission_id = ''a3'', sm_created_utc = 90000,
          sm_title = ''GME to the moon!'', sm_score = 7\<rparr>],
      reddit_comments =
        [\<lparr>cm_id = 1, cm_submission_id = ''a3'', cm_comment_id = ''c1'',
          cm_created_utc = 50010, cm_cleaned_comment = ''Buy!'', cm_score = 5\<rparr>,
         \<lparr>cm_id = 2, cm_submission_id = ''a3'', cm_comment_id = ''c2'',
          cm_created_utc = 50020, cm_cleaned_comment = ''Hold.'', cm_score = 9\<rparr>]\<rparr>"

definition example_fetch_calls :: "call list" where
  "example_fetch_calls =
     [SessionOpen, Commit, Close, ReadSql RedditSubmissions,
      SessionOpen, Commit, Close, ReadSql Subreddits,
      SessionOpen, BulkInsert Subreddits 1, Commit, Close,
      SessionOpen, Commit, Close, ReadSql Subreddits,
      SessionOpen, BulkInsert RedditSubmissions 1, Commit, Close,
      SessionOpen, Commit, Close, ReadSql RedditComments,
      SessionOpen, BulkInsert RedditComments 2, Commit, Close]"

text \<open>
  \<open>example_db\<close> after the score of its submission has been refreshed to 7, and after
  the whole refresh of GME against \<open>example_env\<close>.
\<close>

definition example_db_scores_refreshed :: db where
  "example_db_scores_refreshed =
     \<lparr>subreddits =
        [\<lparr>sr_id = 1, sr_name = ''wallstreetbets'', sr_subreddit_id = ''t5_2th52'',
          sr_subscribers = 100\<rparr>],
      reddit_submissions =
        [\<lparr>sm_id = 1, sm_ticker = ''GME'', sm_subreddit_id = IntCell 1,
          sm_submission_id = ''a1'', sm_created_utc = 50000, sm_title = ''gme squeeze'',
          sm_score = 7\<rparr>],
      reddit_comments =
        [\<lparr>cm_id = 1, cm_submission_id = ''a1'', cm_comment_id = ''c1'',
          cm_created_utc = 50010, cm_cleaned_comment = ''buy'', cm_score = 5\<rparr>]\<rparr>"

definition example_db_after_update :: db where
  "example_db_after_update =
     \<lparr>subreddits =
        [\<lparr>sr_id = 1, sr_name = ''wallstreetbets'', sr_subreddit_id = ''t5_2th52'',
          sr_subscribers = 100\<rparr>],
      reddit_submissions =
        [\<lparr>sm_id = 1, sm_ticker = ''GME'', sm_subreddit_id = IntCell 1,
          sm_submission_id = ''a1'', sm_created_utc = 50000, sm_title = ''gme squeeze'',
          sm_score = 7\<rparr>],
      reddit_comments =
        [\<lparr>cm_id = 1, cm_submission_id = ''a1'', cm_comment_id = ''c1'',
          cm_created_utc = 50010, cm_cleaned_comment = ''buy'', cm_score = 6\<rparr>,
         \<lparr>cm_id = 2, cm_submission_id = ''a1'', cm_comment_id = ''c2'',
          cm_created_utc = 50020, cm_cleaned_comment = ''Hold.'', cm_score = 9\<rparr>]\<rparr>"

section \<open>Unfolding rules\<close>

lemmas api_defs =
  get_submissions_def py_int_def int_of_string_def digit_of_def strftime_s_def digit_char_def
  py_sub_decay_def before_decay_def api_process_submissions_def get_submission_details_def
  submission_details_row_def merge_on_id_def get_comment_details_def comment_details_row_def
  comment_rows_def get_subreddit_details_def subreddit_details_row_def

lemmas store_defs =
  and_then_def with_session_def get_values_calls_def get_values_subreddits_def
  get_values_submissions_def get_values_comments_def no_filters_def next_id_def unique_ok_def
  bulk_insert_subreddits_def bulk_insert_submissions_def bulk_insert_comments_def
  insert_values_subreddits_def insert_values_submissions_def insert_values_comments_def
  merge_scores_def bulk_update_submissions_def bulk_update_comments_def
  update_values_submissions_def update_values_comments_def

lemmas manager_defs =
  fillna_def update_subreddits_def item_def subreddit_to_id_def
  process_submissions_def cleaned_comment_def process_comments_def update_comments_def
  old_comments_def
  update_submissions_ticker_def store_fetched_def fetch_data_def

lemmas example_defs =
  example_post_def comment_c1_def comment_c2_def example_env_def empty_pages_env_def
  empty_db_def example_db_def repeating_env_def example_db_after_fetch_def
  example_fetch_calls_def example_db_scores_refreshed_def example_db_after_update_def

section \<open>Dates as decimal strings\<close>

text \<open>\<open>int\<close> reads back what \<open>strftime('%s')\<close> prints.\<close>

lemma digit_of_digit_char: "d < 10 \<Longrightarrow> digit_of (digit_char d) = Some d"
proof -
  assume "d < 10"
  then have "d = 0 \<or> d = 1 \<or> d = 2 \<or> d = 3 \<or> d = 4 \<or> d = 5 \<or> d = 6 \<or> d = 7 \<or> d = 8 \<or> d = 9"
    by arith
  then show ?thesis
    by (elim disjE) (simp_all add: digit_of_def digit_char_def)
qed

lemma digits_to_nat_snoc:
  "digits_to_nat acc (cs @ [c]) =
     (case digits_to_nat acc cs of
        None \<Rightarrow> None
      | Some m \<Rightarrow> (case digit_of c of None \<Rightarrow> None | Some d \<Rightarrow> Some (10 * m + d)))"
  by (induction cs arbitrary: acc) (auto split: option.splits)

lemma digits_to_nat_string_of_nat: "digits_to_nat 0 (string_of_nat n) = Some n"
proof (induction n rule: string_of_nat.induct)
  case (1 n)
  show ?case
  proof (cases "n < 10")
    case True
    then show ?thesis by (subst string_of_nat.simps) (simp add: digit_of_digit_char)
  next
    case False
    with 1 have IH: "digits_to_nat 0 (string_of_nat (n div 10)) = Some (n div 10)" by simp
    have "n mod 10 < 10" by simp
    from False IH digit_of_digit_char[OF this] show ?thesis
      by (subst string_of_nat.simps) (simp add: digits_to_nat_snoc)
  qed
qed

lemma string_of_nat_head:
  "\<exists>c cs d. string_of_nat n = c # cs \<and> digit_of c = Some d"
proof (induction n rule: string_of_nat.induct)
  case (1 n)
  show ?case
  proof (cases "n < 10")
    case True
    then show ?thesis by (subst string_of_nat.simps) (simp add: digit_of_digit_char)
  next
    case False
    with 1 obtain c cs d where "string_of_nat (n div 10) = c # cs" "digit_of c = Some d" by blast
    with False show ?thesis by (subst string_of_nat.simps) simp
  qed
qed

lemma int_of_string_strftime_s: "int_of_string (strftime_s t) = Inr t"
proof (cases "t < 0")
  case True
  obtain c cs d where "string_of_nat (nat (- t)) = c # cs"
    using string_of_nat_head[of "nat (- t)"] by blast
  with True digits_to_nat_string_of_nat[of "nat (- t)"] show ?thesis
    by (simp add: int_of_string_def strftime_s_def)
next
  case False
  obtain c cs d where s: "string_of_nat (nat t) = c # cs" and c: "digit_of c = Some d"
    using string_of_nat_head[of "nat t"] by blast
  have "c \<noteq> CHR ''-''" "c \<noteq> CHR ''+''"
    using c by (auto simp: digit_of_def)
  with False s digits_to_nat_string_of_nat[of "nat t"] show ?thesis
    by (simp add: int_of_string_def strftime_s_def)
qed

section \<open>The paginated fetch: what the loop does with its cursor\<close>

text \<open>
  The loop tests the locals \<open>before\<close> and \<open>after\<close>, which its body never assigns; with
  an integer cursor an empty page only decrements \<open>params['before']\<close>. So once the
  cursor is an integer and the pages from the current one on are all empty, the loop
  cannot return: any return value would contradict the fixed-point induction below.
\<close>

lemma get_submissions_loop_empty_pages_no_result:
  assumes ret: "get_submissions_loop pg before after limit i pb submissions = Some y"
  shows "\<not> (after < before \<and> int (length submissions) < limit
            \<and> (\<forall>j. i \<le> j \<longrightarrow> pg j = Page []) \<and> (\<exists>b. pb = PInt b))"
proof (rule get_submissions_loop.raw_induct[OF _ ret])
  fix f :: "(nat \<Rightarrow> response) \<Rightarrow> int \<Rightarrow> int \<Rightarrow> int \<Rightarrow> nat \<Rightarrow> pyval \<Rightarrow> post list
              \<Rightarrow> (error + pyval \<times> post list) option"
    and pg :: "nat \<Rightarrow> response" and before after limit :: int and i :: nat and pb :: pyval
    and submissions :: "post list" and y :: "error + pyval \<times> post list"
  assume IH: "\<And>pg before after limit i pb submissions y.
     f pg before after limit i pb submissions = Some y \<Longrightarrow>
     \<not> (after < before \<and> int (length submissions) < limit
        \<and> (\<forall>j. i \<le> j \<longrightarrow> pg j = Page []) \<and> (\<exists>b. pb = PInt b))"
  assume step: "(if after < before \<and> int (length submissions) < limit
      then case pg i of
        Page data \<Rightarrow>
          if data = []
          then case py_sub_decay pb of Inl e \<Rightarrow> Some (Inl e)
               | Inr pb' \<Rightarrow> f pg before after limit (Suc i) pb' submissions
          else f pg before after limit (Suc i)
                (PInt (p_created_utc (last data))) (submissions @ data)
        | BadBody \<Rightarrow> Some (Inr (pb, submissions))
        | ConnError \<Rightarrow> Some (Inl ConnectionError)
      else Some (Inr (pb, submissions))) = Some y"
  show "\<not> (after < before \<and> int (length submissions) < limit
          \<and> (\<forall>j. i \<le> j \<longrightarrow> pg j = Page []) \<and> (\<exists>b. pb = PInt b))"
  proof
    assume a: "after < before \<and> int (length submissions) < limit
                 \<and> (\<forall>j. i \<le> j \<longrightarrow> pg j = Page []) \<and> (\<exists>b. pb = PInt b)"
    then obtain b where b: "pb = PInt b" by blast
    from a have here: "pg i = Page []" by simp
    from a have later: "\<forall>j. Suc i \<le> j \<longrightarrow> pg j = Page []" by simp
    from a b here step
    have "f pg before after limit (Suc i) (PInt (b - before_decay)) submissions = Some y"
      by (simp add: py_sub_decay_def)
    from IH[OF this] a later show False by blast
  qed
qed

lemma get_submissions_loop_never_returns:
  assumes "after < before" and "int (length submissions) < limit"
    and "\<forall>j. i \<le> j \<longrightarrow> pg j = Page []"
  shows "get_submissions_loop pg before after limit i (PInt b) submissions = None"
proof (cases "get_submissions_loop pg before after limit i (PInt b) submissions")
  case None
  then show ?thesis .
next
  case (Some y)
  from get_submissions_loop_empty_pages_no_result[OF Some] assms show ?thesis by blast
qed

text \<open>
  C1 (the code does not do what the claim says). The claim: with \<open>before0 > after\<close> the
  loop always ends, once the cursor falls to \<open>after\<close> or the limit is reached. The
  cursor in \<open>params['before']\<close> is decremented on every empty page, but the loop
  condition reads the local \<open>before\<close>, which keeps its initial value. So
  \<open>get_submissions\<close> never returns on the query \<open>before = 100000\<close>, \<open>after = 0\<close>,
  \<open>limit = 10\<close> with integer cursors against a source whose pages are all empty; and
  \<open>fetch_data\<close> never returns for the same window and limit against a source whose
  first page holds one post and whose later pages are empty (the first page turns the
  string cursor into the integer 90000).
\<close>

theorem get_submissions_empty_pages_diverges:
  "get_submissions empty_pages_env
     \<lparr>q_ticker = ''GME'', q_subreddit = [], q_before = PInt 100000, q_after = PInt 0,
      q_limit = 10\<rparr> = None
   \<and> fetch_data example_env ''GME'' 10 100000 0 [] empty_db = None"
proof -
  have "get_submissions_loop (\<lambda>i. Page []) 100000 0 10 0 (PInt 100000) [] = None"
    by (rule get_submissions_loop_never_returns) simp_all
  then have direct: "get_submissions empty_pages_env
     \<lparr>q_ticker = ''GME'', q_subreddit = [], q_before = PInt 100000, q_after = PInt 0,
      q_limit = 10\<rparr> = None"
    by (simp add: get_submissions_def py_int_def empty_pages_env_def example_env_def)
  have created: "p_created_utc example_post = 90000"
    by (simp add: example_post_def)
  have rest: "get_submissions_loop (\<lambda>i. if i = 0 then Page [example_post] else Page [])
                100000 0 10 (Suc 0) (PInt 90000) [example_post] = None"
    by (rule get_submissions_loop_never_returns) simp_all
  have "get_submissions_loop (\<lambda>i. if i = 0 then Page [example_post] else Page [])
          100000 0 10 0 (PStr (strftime_s 100000)) [] = None"
    by (subst get_submissions_loop.simps) (simp add: rest created)
  then have "get_submissions example_env
     \<lparr>q_ticker = ''GME'', q_subreddit = [], q_before = PStr (strftime_s 100000),
      q_after = PStr (strftime_s 0), q_limit = 10\<rparr> = None"
    by (simp add: get_submissions_def py_int_def int_of_string_strftime_s example_env_def)
  then have "fetch_data example_env ''GME'' 10 100000 0 [] empty_db = None"
    by (simp add: fetch_data_def)
  with direct show ?thesis by simp
qed

text \<open>
  C10. When the query carries \<open>before\<close> as a decimal string, as \<open>fetch_data\<close> builds it,
  and the first page received is empty (so the loop was entered: \<open>before > after\<close> and
  \<open>limit > 0\<close>), the backoff step subtracts an integer from a string: the call ends with
  an uncaught \<open>TypeError\<close> and returns nothing.
\<close>

theorem get_submissions_string_cursor_TypeError:
  assumes "q_before ps = PStr s"
    and "py_int (PStr s) = Inr before"
    and "py_int (q_after ps) = Inr after"
    and "after < before"
    and "0 < q_limit ps"
    and "pages e 0 = Page []"
  shows "get_submissions e ps = Some (Inl TypeError)"
  using assms
  by (simp add: get_submissions_def get_submissions_loop.simps[of _ _ _ _ 0] py_sub_decay_def)

theorem get_submissions_string_cursor_TypeError_witness:
  "q_before \<lparr>q_ticker = ''GME'', q_subreddit = [], q_before = PStr (strftime_s 100000),
             q_after = PStr (strftime_s 0), q_limit = 10\<rparr> = PStr ''100000''
   \<and> py_int (PStr ''100000'') = Inr 100000
   \<and> py_int (PStr (strftime_s 0)) = Inr 0
   \<and> pages empty_pages_env 0 = Page []
   \<and> get_submissions empty_pages_env
        \<lparr>q_ticker = ''GME'', q_subreddit = [], q_before = PStr (strftime_s 100000),
         q_after = PStr (strftime_s 0), q_limit = 10\<rparr> = Some (Inl TypeError)"
proof -
  have h1: "q_before \<lparr>q_ticker = ''GME'', q_subreddit = [], q_before = PStr (strftime_s 100000),
             q_after = PStr (strftime_s 0), q_limit = 10\<rparr> = PStr ''100000''"
    by (simp add: strftime_s_def digit_char_def)
  have h2: "py_int (PStr ''100000'') = Inr 100000"
    by (simp add: py_int_def int_of_string_def digit_of_def)
  have h3: "py_int (q_after \<lparr>q_ticker = ''GME'', q_subreddit = [], q_before = PStr (strftime_s 100000),
             q_after = PStr (strftime_s 0), q_limit = 10\<rparr>) = Inr 0"
    by (simp add: py_int_def int_of_string_def digit_of_def strftime_s_def digit_char_def)
  have h4: "(0::int) < 100000" by simp
  have h5: "0 < q_limit \<lparr>q_ticker = ''GME'', q_subreddit = [], q_before = PStr (strftime_s 100000),
             q_after = PStr (strftime_s 0), q_limit = 10\<rparr>" by simp
  have h6: "pages empty_pages_env 0 = Page []"
    by (simp add: empty_pages_env_def example_env_def)
  from get_submissions_string_cursor_TypeError[OF h1 h2 h3 h4 h5 h6] h1 h2 h3 h6
  show ?thesis by simp
qed

text \<open>
  The same at the level of \<open>fetch_data\<close>, for every window and limit for which a page
  is requested: if the first page is empty, the call raises \<open>TypeError\<close> before any
  store call.
\<close>

lemma fetch_data_first_page_empty:
  assumes "after < before" and "0 < limit" and "pages e 0 = Page []"
  shows "fetch_data e ticker limit before after subreddit_names d = Some (Inl TypeError, d, [])"
  using assms
  by (simp add: fetch_data_def get_submissions_def py_int_def int_of_string_strftime_s
      get_submissions_loop.simps[of _ _ _ _ 0] py_sub_decay_def)

text \<open>
  C7 (the code does not do what the claim says). The claim: when every page is empty,
  the fetch returns an empty result and \<open>fetch_data\<close> stops cleanly, logging that
  there are no new submissions. \<open>fetch_data\<close> passes the cursor as a string, so on the
  first empty page the call raises \<open>TypeError\<close> before any store call; and when no page
  is requested at all (a window with \<open>before \<le> after\<close>), \<open>get_submissions\<close> returns
  the Python list \<open>[]\<close>, on which \<open>process_submissions\<close> raises \<open>AttributeError\<close>
  after its first read.
\<close>

theorem fetch_data_empty_window_raises:
  "fetch_data empty_pages_env ''GME'' 10 100000 0 [] example_db
     = Some (Inl TypeError, example_db, [])
   \<and> fetch_data empty_pages_env ''GME'' 10 0 0 [] example_db
     = Some (Inl AttributeError, example_db, [SessionOpen, Commit, Close, ReadSql RedditSubmissions])"
  by (simp add: api_defs store_defs manager_defs example_defs get_submissions_loop.simps)

section \<open>The detail fetch\<close>

lemma apply_rows_Inr_length:
  "apply_rows f xs = Inr ys \<Longrightarrow> length ys = length xs"
  by (induction xs arbitrary: ys) (auto split: sum.splits)

lemma apply_rows_first_failure:
  "f x = Inl err \<Longrightarrow> apply_rows f (x # xs) = Inl err"
  by simp

lemma apply_rows_any_failure:
  "x \<in> set xs \<Longrightarrow> isl (f x) \<Longrightarrow> isl (apply_rows f xs)"
  by (induction xs) (auto split: sum.splits)

text \<open>
  C5 (the code does not do what the claim says). The claim: a lookup that fails is
  skipped with a warning and the rows of the ids after it are still returned. Neither
  \<open>get_submission_details\<close> nor \<open>get_comment_details\<close> has a \<open>try\<close> around the
  lookup (unlike \<open>get_comments\<close>): with the unresolvable id \<open>gone\<close> first, the call
  raises and returns no row, although the second id resolves on its own.
\<close>

theorem detail_fetch_aborts_on_failed_lookup:
  "get_submission_details example_env [''gone'', ''a1''] = Inl PrawError
   \<and> get_submission_details example_env [''a1''] = Inr [(''a1'', 7)]
   \<and> get_comment_details example_env [''gone'', ''c1''] = Inl PrawError
   \<and> get_comment_details example_env [''c1''] = Inr [(''c1'', 6)]"
  by (simp add: api_defs example_defs)

section \<open>Subreddit references\<close>

lemma example_fetch_into_empty_store:
  "fetch_data example_env ''GME'' 1 100000 0 [''wallstreetbets''] empty_db =
     Some (Inr (), example_db_after_fetch, example_fetch_calls)"
  by (simp add: api_defs store_defs manager_defs example_defs get_submissions_loop.simps Let_def)

text \<open>
  C3 (the code does not do what the claim says). The claim: the \<open>subreddit_id\<close> of an
  inserted submission equals the stored \<open>subreddit_id\<close> of its subreddit's row.
  \<open>process_submissions\<close> maps the subreddit name to \<open>stored_subreddits.id\<close>, the
  integer primary key, not to \<open>stored_subreddits.subreddit_id\<close>: fetching one post of
  \<open>wallstreetbets\<close> into an empty store creates the subreddit row with primary key 1 and
  \<open>subreddit_id = 't5_2th52'\<close>, and inserts the submission with \<open>subreddit_id = 1\<close>.
\<close>

theorem fetch_data_subreddit_id_is_primary_key:
  "(case fetch_data example_env ''GME'' 1 100000 0 [''wallstreetbets''] empty_db of
      None \<Rightarrow> False
    | Some (r, d', cs) \<Rightarrow>
        r = Inr ()
        \<and> map sm_subreddit_id (reddit_submissions d') = [IntCell 1]
        \<and> map sr_id (subreddits d') = [1]
        \<and> map sr_name (subreddits d') = [''wallstreetbets'']
        \<and> map sr_subreddit_id (subreddits d') = [''t5_2th52''])"
  by (simp add: api_defs store_defs manager_defs example_defs get_submissions_loop.simps Let_def)

section \<open>What a refresh may change\<close>

text \<open>
  An invariant of the store that the first step establishes and every later step keeps
  holds after the whole sequence, whether or not a step raises.
\<close>

lemma and_then_db_invariant:
  assumes "Q (fst (snd m))" and "\<And>v d1. Q d1 \<Longrightarrow> Q (fst (snd (f v d1)))"
  shows "Q (fst (snd (and_then m f)))"
proof -
  obtain r d cs where m: "m = (r, d, cs)" by (cases m)
  show ?thesis
  proof (cases r)
    case (Inl x)
    with m assms(1) show ?thesis by (simp add: and_then_def)
  next
    case (Inr v)
    from m assms(1) have "Q d" by simp
    from assms(2)[OF this, of v] show ?thesis
      using m Inr by (auto simp add: and_then_def split: prod.splits)
  qed
qed

lemma with_session_db: "fst (snd (with_session body d)) = fst (snd (body d))"
  by (simp add: with_session_def split: prod.splits sum.splits)

lemma fold_score_update_frame:
  "map (\<lambda>row. row\<lparr>sm_score := 0\<rparr>)
     (fold (\<lambda>m rows. map (\<lambda>r. if sm_id r = fst m then r\<lparr>sm_score := snd m\<rparr> else r) rows) ms rows)
   = map (\<lambda>row. row\<lparr>sm_score := 0\<rparr>) rows"
proof (induction ms arbitrary: rows)
  case Nil
  show ?case by simp
next
  case (Cons m ms)
  have "map (\<lambda>row. row\<lparr>sm_score := 0\<rparr>)
          (map (\<lambda>r. if sm_id r = fst m then r\<lparr>sm_score := snd m\<rparr> else r) rows)
        = map (\<lambda>row. row\<lparr>sm_score := 0\<rparr>) rows"
    by (induction rows) simp_all
  with Cons.IH show ?case by simp
qed

lemma update_values_submissions_frame:
  "map (\<lambda>row. row\<lparr>sm_score := 0\<rparr>) (reddit_submissions (fst (snd (update_values_submissions vals d))))
   = map (\<lambda>row. row\<lparr>sm_score := 0\<rparr>) (reddit_submissions d)"
  by (simp add: update_values_submissions_def and_then_def get_values_submissions_def
      with_session_def bulk_update_submissions_def fold_score_update_frame
      split: prod.splits sum.splits)

lemma process_comments_db: "fst (snd (process_comments e comments d)) = d"
  by (simp add: process_comments_def and_then_def get_values_comments_def Let_def)

lemma insert_values_comments_submissions:
  "reddit_submissions (fst (snd (insert_values_comments vals d))) = reddit_submissions d"
  by (simp add: insert_values_comments_def with_session_def bulk_insert_comments_def split: prod.splits)

lemma update_values_comments_submissions:
  "reddit_submissions (fst (snd (update_values_comments vals d))) = reddit_submissions d"
  by (simp add: update_values_comments_def and_then_def get_values_comments_def
      with_session_def bulk_update_comments_def split: prod.splits sum.splits)

lemma update_comments_submissions:
  "reddit_submissions (fst (snd (update_comments e comments d))) = reddit_submissions d"
  by (simp add: update_comments_def update_values_comments_submissions split: sum.splits)

lemma update_submissions_ticker_frame:
  "map (\<lambda>row. row\<lparr>sm_score := 0\<rparr>)
     (reddit_submissions (fst (snd (update_submissions_ticker e ticker daterange d))))
   = map (\<lambda>row. row\<lparr>sm_score := 0\<rparr>) (reddit_submissions d)"
  unfolding update_submissions_ticker_def Let_def
  apply (rule and_then_db_invariant)
   apply (simp add: get_values_submissions_def)
  apply (simp split: sum.splits)
  apply (intro conjI allI impI)
  apply (rule and_then_db_invariant)
   apply (simp add: update_values_submissions_frame)
  apply (simp split: sum.splits)
  apply (intro conjI allI impI)
  apply (rule and_then_db_invariant)
   apply (simp add: process_comments_db)
  apply (rule and_then_db_invariant)
   apply (simp add: insert_values_comments_submissions)
  apply (simp add: update_comments_submissions)
  done


lemma update_submissions_frame:
  "map (\<lambda>row. row\<lparr>sm_score := 0\<rparr>)
     (reddit_submissions (fst (snd (update_submissions e tickers daterange d))))
   = map (\<lambda>row. row\<lparr>sm_score := 0\<rparr>) (reddit_submissions d)"
proof (induction tickers arbitrary: d)
  case Nil
  show ?case by simp
next
  case (Cons ticker tickers)
  show ?case
    unfolding update_submissions.simps
  proof (rule and_then_db_invariant)
    show "map (\<lambda>row. row\<lparr>sm_score := 0\<rparr>)
            (reddit_submissions (fst (snd (update_submissions_ticker e ticker daterange d))))
          = map (\<lambda>row. row\<lparr>sm_score := 0\<rparr>) (reddit_submissions d)"
      by (rule update_submissions_ticker_frame)
  next
    fix v :: unit and d1 :: db
    assume "map (\<lambda>row. row\<lparr>sm_score := 0\<rparr>) (reddit_submissions d1)
              = map (\<lambda>row. row\<lparr>sm_score := 0\<rparr>) (reddit_submissions d)"
    with Cons.IH[of d1]
    show "map (\<lambda>row. row\<lparr>sm_score := 0\<rparr>)
            (reddit_submissions (fst (snd (update_submissions e tickers daterange d1))))
          = map (\<lambda>row. row\<lparr>sm_score := 0\<rparr>) (reddit_submissions d)"
      by simp
  qed
qed

text \<open>
  C4. Whatever \<open>update_submissions\<close> does and however it ends (normally or with an
  exception from a later step), the rows of \<open>reddit_submissions\<close> are the same rows in
  the same order with every column but \<open>score\<close> as before: in particular \<open>title\<close> and
  \<open>created_utc\<close> are unchanged.
\<close>

theorem update_submissions_changes_score_only:
  assumes "update_submissions e tickers daterange d = (r, d', cs)"
  shows "map sm_title (reddit_submissions d') = map sm_title (reddit_submissions d)
       \<and> map sm_created_utc (reddit_submissions d') = map sm_created_utc (reddit_submissions d)
       \<and> map (\<lambda>row. row\<lparr>sm_score := 0\<rparr>) (reddit_submissions d')
           = map (\<lambda>row. row\<lparr>sm_score := 0\<rparr>) (reddit_submissions d)"
proof -
  have frame: "map (\<lambda>row. row\<lparr>sm_score := 0\<rparr>) (reddit_submissions d')
                 = map (\<lambda>row. row\<lparr>sm_score := 0\<rparr>) (reddit_submissions d)"
    using update_submissions_frame[of e tickers daterange d] assms by simp
  have "map sm_title (map (\<lambda>row. row\<lparr>sm_score := 0\<rparr>) (reddit_submissions d'))
          = map sm_title (map (\<lambda>row. row\<lparr>sm_score := 0\<rparr>) (reddit_submissions d))"
    by (simp only: frame)
  then have titles: "map sm_title (reddit_submissions d') = map sm_title (reddit_submissions d)"
    by (simp add: comp_def)
  have "map sm_created_utc (map (\<lambda>row. row\<lparr>sm_score := 0\<rparr>) (reddit_submissions d'))
          = map sm_created_utc (map (\<lambda>row. row\<lparr>sm_score := 0\<rparr>) (reddit_submissions d))"
    by (simp only: frame)
  then have created: "map sm_created_utc (reddit_submissions d')
                        = map sm_created_utc (reddit_submissions d)"
    by (simp add: comp_def)
  from titles created frame show ?thesis by blast
qed

theorem update_submissions_changes_score_only_witness:
  "update_submissions example_env [''GME''] (0, 100000) example_db =
     (Inr (),
      \<lparr>subreddits =
         [\<lparr>sr_id = 1, sr_name = ''wallstreetbets'', sr_subreddit_id = ''t5_2th52'',
           sr_subscribers = 100\<rparr>],
       reddit_submissions =
         [\<lparr>sm_id = 1, sm_ticker = ''GME'', sm_subreddit_id = IntCell 1,
           sm_submission_id = ''a1'', sm_created_utc = 50000, sm_title = ''gme squeeze'',
           sm_score = 7\<rparr>],
       reddit_comments =
         [\<lparr>cm_id = 1, cm_submission_id = ''a1'', cm_comment_id = ''c1'',
           cm_created_utc = 50010, cm_cleaned_comment = ''buy'', cm_score = 6\<rparr>,
          \<lparr>cm_id = 2, cm_submission_id = ''a1'', cm_comment_id = ''c2'',
           cm_created_utc = 50020, cm_cleaned_comment = ''Hold.'', cm_score = 9\<rparr>]\<rparr>,
      [SessionOpen, Commit, Close, ReadSql RedditSubmissions,
       SessionOpen, Commit, Close, ReadSql RedditSubmissions,
       SessionOpen, BulkUpdate RedditSubmissions 1, Commit, Close,
       SessionOpen, Commit, Close, ReadSql RedditComments,
       SessionOpen, BulkInsert RedditComments 1, Commit, Close,
       SessionOpen, Commit, Close, ReadSql RedditComments,
       SessionOpen, BulkUpdate RedditComments 1, Commit, Close])
   \<and> map sm_title (reddit_submissions example_db) = [''gme squeeze'']
   \<and> map sm_created_utc (reddit_submissions example_db) = [50000]
   \<and> map sm_score (reddit_submissions example_db) = [3]"
proof -
  let ?d' = "\<lparr>subreddits =
         [\<lparr>sr_id = 1, sr_name = ''wallstreetbets'', sr_subreddit_id = ''t5_2th52'',
           sr_subscribers = 100\<rparr>],
       reddit_submissions =
         [\<lparr>sm_id = 1, sm_ticker = ''GME'', sm_subreddit_id = IntCell 1,
           sm_submission_id = ''a1'', sm_created_utc = 50000, sm_title = ''gme squeeze'',
           sm_score = 7\<rparr>],
       reddit_comments =
         [\<lparr>cm_id = 1, cm_submission_id = ''a1'', cm_comment_id = ''c1'',
           cm_created_utc = 50010, cm_cleaned_comment = ''buy'', cm_score = 6\<rparr>,
          \<lparr>cm_id = 2, cm_submission_id = ''a1'', cm_comment_id = ''c2'',
           cm_created_utc = 50020, cm_cleaned_comment = ''Hold.'', cm_score = 9\<rparr>]\<rparr>"
  let ?cs = "[SessionOpen, Commit, Close, ReadSql RedditSubmissions,
       SessionOpen, Commit, Close, ReadSql RedditSubmissions,
       SessionOpen, BulkUpdate RedditSubmissions 1, Commit, Close,
       SessionOpen, Commit, Close, ReadSql RedditComments,
       SessionOpen, BulkInsert RedditComments 1, Commit, Close,
       SessionOpen, Commit, Close, ReadSql RedditComments,
       SessionOpen, BulkUpdate RedditComments 1, Commit, Close]"
  have run: "update_submissions example_env [''GME''] (0, 100000) example_db = (Inr (), ?d', ?cs)"
    by (simp add: api_defs store_defs manager_defs example_defs Let_def)
  from update_submissions_changes_score_only[OF run] run
  show ?thesis by (simp add: example_db_def)
qed

section \<open>A refresh that matches nothing\<close>

lemma concat_map_Nil_all: "concat (map (\<lambda>r. []) xs) = []"
  by (induction xs) simp_all

text \<open>
  C6 (as amended). When no stored submission matches the ticker and the date range and
  the submissions table is not empty, \<open>update_submissions\<close> returns without an
  exception and leaves the store as it was, but the initial read is not its only store
  call: \<open>update_values\<close> reads the whole submissions table and runs a bulk update with
  no mappings in a session of its own, and \<open>process_comments\<close> reads the comments
  table. Nothing is inserted.
\<close>

theorem update_submissions_no_match:
  assumes "filter (\<lambda>r. sm_ticker r = ticker \<and> d1 \<le> sm_created_utc r \<and> sm_created_utc r \<le> d2)
             (reddit_submissions d) = []"
    and "reddit_submissions d \<noteq> []"
  shows "update_submissions e [ticker] (d1, d2) d =
           (Inr (), d,
            [SessionOpen, Commit, Close, ReadSql RedditSubmissions,
             SessionOpen, Commit, Close, ReadSql RedditSubmissions,
             SessionOpen, BulkUpdate RedditSubmissions 0, Commit, Close,
             SessionOpen, Commit, Close, ReadSql RedditComments])"
  using assms
  by (simp add: update_submissions_ticker_def and_then_def get_values_submissions_def
      get_values_calls_def get_submission_details_def update_values_submissions_def
      with_session_def bulk_update_submissions_def merge_scores_def concat_map_Nil_all
      process_comments_def get_values_comments_def old_comments_def no_filters_def)

theorem update_submissions_no_match_witness:
  "filter (\<lambda>r. sm_ticker r = ''AAPL'' \<and> 0 \<le> sm_created_utc r \<and> sm_created_utc r \<le> 100000)
     (reddit_submissions example_db) = []
   \<and> reddit_submissions example_db \<noteq> []
   \<and> update_submissions example_env [''AAPL''] (0, 100000) example_db =
       (Inr (), example_db,
        [SessionOpen, Commit, Close, ReadSql RedditSubmissions,
         SessionOpen, Commit, Close, ReadSql RedditSubmissions,
         SessionOpen, BulkUpdate RedditSubmissions 0, Commit, Close,
         SessionOpen, Commit, Close, ReadSql RedditComments])"
proof -
  have h: "filter (\<lambda>r. sm_ticker r = ''AAPL'' \<and> 0 \<le> sm_created_utc r \<and> sm_created_utc r \<le> 100000)
     (reddit_submissions example_db) = []"
    by (simp add: example_db_def)
  have n: "reddit_submissions example_db \<noteq> []"
    by (simp add: example_db_def)
  from update_submissions_no_match[OF h n, of example_env] h n show ?thesis by blast
qed

text \<open>
  On a submissions table with no row at all, both frames that \<open>update_values\<close> hands
  to \<open>pd.merge\<close> are empty, and the call ends with \<open>ValueError\<close> after the second
  read of the table.
\<close>

lemma update_submissions_empty_table:
  assumes "reddit_submissions d = []"
  shows "update_submissions e [ticker] (d1, d2) d =
           (Inl ValueError, d,
            [SessionOpen, Commit, Close, ReadSql RedditSubmissions,
             SessionOpen, Commit, Close, ReadSql RedditSubmissions])"
  using assms
  by (simp add: update_submissions_ticker_def and_then_def get_values_submissions_def
      get_values_calls_def get_submission_details_def update_values_submissions_def
      merge_scores_def no_filters_def)

text \<open>
  The claim as stated (no store call beyond the initial read, and no exception) fails
  on a store holding only a GME submission when AAPL is refreshed: three more store
  calls are made. On the empty store the call raises.
\<close>

theorem update_submissions_no_match_counterexample:
  "filter (\<lambda>r. sm_ticker r = ''AAPL'' \<and> 0 \<le> sm_created_utc r \<and> sm_created_utc r \<le> 100000)
     (reddit_submissions example_db) = []
   \<and> snd (snd (update_submissions example_env [''AAPL''] (0, 100000) example_db))
       \<noteq> [SessionOpen, Commit, Close, ReadSql RedditSubmissions]
   \<and> BulkUpdate RedditSubmissions 0
       \<in> set (snd (snd (update_submissions example_env [''AAPL''] (0, 100000) example_db)))
   \<and> ReadSql RedditComments
       \<in> set (snd (snd (update_submissions example_env [''AAPL''] (0, 100000) example_db)))
   \<and> fst (update_submissions example_env [''AAPL''] (0, 100000) empty_db) = Inl ValueError"
  by (simp add: api_defs store_defs manager_defs example_defs Let_def)

section \<open>Routing a comment batch\<close>







section \<open>Fetching the same window twice\<close>

lemma map_snd_number_from: "map snd (number_from n xs) = xs"
  by (induction xs arbitrary: n) simp_all

lemma apply_rows_subreddit_to_id_ids:
  "apply_rows (subreddit_to_id stored) new = Inr mapped \<Longrightarrow>
     map n_submission_id mapped = map s_submission_id new"
  by (induction new arbitrary: mapped) (auto simp: subreddit_to_id_def split: sum.splits)

lemma apply_rows_subreddit_names:
  "apply_rows (subreddit_details_row e) names = Inr info \<Longrightarrow> map si_name info = names"
  by (induction names arbitrary: info)
    (auto simp: subreddit_details_row_def split: sum.splits option.splits)

lemma update_subreddits_unfold:
  "update_subreddits e names False d =
     (if remdups (filter (\<lambda>sub. sub \<notin> set (map sr_name (subreddits d))) names) = []
      then (Inr (), d, get_values_calls Subreddits)
      else
        (case get_subreddit_details e
                (remdups (filter (\<lambda>sub. sub \<notin> set (map sr_name (subreddits d))) names)) of
           Inl x \<Rightarrow> (Inl x, d, get_values_calls Subreddits)
         | Inr info \<Rightarrow>
             (case insert_values_subreddits (map fillna info) d of
                (r, d', cs) \<Rightarrow> (r, d', get_values_calls Subreddits @ cs))))"
  by (cases "names = []")
    (simp_all add: update_subreddits_def and_then_def get_values_subreddits_def no_filters_def
      Let_def split: sum.splits prod.splits)

lemma insert_values_subreddits_Inl:
  "insert_values_subreddits vals d = (Inl x, d', cs) \<Longrightarrow> d' = d"
  by (auto simp: insert_values_subreddits_def with_session_def bulk_insert_subreddits_def
      split: if_splits)

lemma insert_values_subreddits_Inr:
  "insert_values_subreddits vals d = (Inr u, d', cs) \<Longrightarrow>
     map sr_name (subreddits d') = map sr_name (subreddits d) @ map fst vals
     \<and> reddit_submissions d' = reddit_submissions d \<and> reddit_comments d' = reddit_comments d"
proof -
  have names: "map (sr_name \<circ> (\<lambda>(i, m). \<lparr>sr_id = i, sr_name = fst m, sr_subreddit_id = fst (snd m),
                              sr_subscribers = snd (snd m)\<rparr>)) (number_from n vals) = map fst vals" for n
    by (induction vals arbitrary: n) simp_all
  assume "insert_values_subreddits vals d = (Inr u, d', cs)"
  then show ?thesis
    by (auto simp: insert_values_subreddits_def with_session_def bulk_insert_subreddits_def
        names split: if_splits)
qed

lemma update_subreddits_Inl:
  "update_subreddits e names False d = (Inl x, d', cs) \<Longrightarrow> d' = d"
  unfolding update_subreddits_unfold
  by (auto split: if_splits sum.splits prod.splits dest: insert_values_subreddits_Inl)

lemma update_subreddits_Inr:
  assumes "update_subreddits e names False d = (Inr u, d', cs)"
  shows "set names \<subseteq> set (map sr_name (subreddits d'))
       \<and> reddit_submissions d' = reddit_submissions d \<and> reddit_comments d' = reddit_comments d"
proof (cases "remdups (filter (\<lambda>sub. sub \<notin> set (map sr_name (subreddits d))) names) = []")
  case True
  with assms have "d' = d" by (simp add: update_subreddits_unfold)
  moreover from True have "set names \<subseteq> set (map sr_name (subreddits d))"
    by (auto simp: filter_empty_conv)
  ultimately show ?thesis by simp
next
  case False
  let ?new = "remdups (filter (\<lambda>sub. sub \<notin> set (map sr_name (subreddits d))) names)"
  from assms False obtain info cs' where
    info: "get_subreddit_details e ?new = Inr info" and
    ins: "insert_values_subreddits (map fillna info) d = (Inr u, d', cs')"
    by (auto simp: update_subreddits_unfold split: sum.splits prod.splits)
  from info have names: "map si_name info = ?new"
    by (simp add: get_subreddit_details_def apply_rows_subreddit_names)
  have "map fst (map fillna info) = map si_name info"
    by (simp add: fillna_def comp_def)
  with insert_values_subreddits_Inr[OF ins] names
  have stored: "map sr_name (subreddits d') = map sr_name (subreddits d) @ ?new"
    and rest: "reddit_submissions d' = reddit_submissions d" "reddit_comments d' = reddit_comments d"
    by simp_all
  have "set names \<subseteq> set (map sr_name (subreddits d) @ ?new)" by auto
  with stored rest show ?thesis by simp
qed

lemma update_subreddits_all_stored:
  assumes "set names \<subseteq> set (map sr_name (subreddits d))"
  shows "update_subreddits e names False d = (Inr (), d, get_values_calls Subreddits)"
proof -
  from assms have "filter (\<lambda>sub. sub \<notin> set (map sr_name (subreddits d))) names = []"
    by (auto simp: filter_empty_conv)
  then show ?thesis by (simp add: update_subreddits_unfold)
qed


lemma process_submissions_EmptyList:
  "process_submissions e EmptyList d = (Inl AttributeError, d, get_values_calls RedditSubmissions)"
  by (simp add: process_submissions_def and_then_def get_values_submissions_def)

lemma process_submissions_DataFrame:
  "process_submissions e (DataFrame rows) d =
     (if filter (\<lambda>r. s_submission_id r \<notin> set (map sm_submission_id (reddit_submissions d))) rows = []
      then (Inr [], d, get_values_calls RedditSubmissions)
      else
        (case update_subreddits e
                (map s_subreddit
                   (filter (\<lambda>r. s_submission_id r \<notin> set (map sm_submission_id (reddit_submissions d)))
                      rows)) False d of
           (Inl x, d2, c2) \<Rightarrow> (Inl x, d2, get_values_calls RedditSubmissions @ c2)
         | (Inr u, d2, c2) \<Rightarrow>
             (case apply_rows (subreddit_to_id (subreddits d2))
                     (filter (\<lambda>r. s_submission_id r
                                     \<notin> set (map sm_submission_id (reddit_submissions d))) rows) of
                Inl x \<Rightarrow>
                  (Inl x, d2, get_values_calls RedditSubmissions @ c2 @ get_values_calls Subreddits)
              | Inr mapped \<Rightarrow>
                  (Inr (map (\<lambda>r. r\<lparr>n_title := clean_text e (n_title r)\<rparr>) mapped), d2,
                   get_values_calls RedditSubmissions @ c2 @ get_values_calls Subreddits))))"
  by (simp add: process_submissions_def and_then_def get_values_submissions_def
      get_values_subreddits_def no_filters_def Let_def split: sum.splits prod.splits)

lemma process_submissions_ids:
  assumes "process_submissions e (DataFrame rows) d = (Inr processed, d1, c)"
  shows "map n_submission_id processed =
           map s_submission_id
             (filter (\<lambda>r. s_submission_id r \<notin> set (map sm_submission_id (reddit_submissions d))) rows)"
  using assms unfolding process_submissions_DataFrame
  by (auto simp: comp_def split: if_splits sum.splits prod.splits
      dest!: apply_rows_subreddit_to_id_ids)

lemma process_submissions_again:
  assumes run: "process_submissions e B d = (r, d1, c)"
  shows "reddit_submissions d1 = reddit_submissions d \<and> reddit_comments d1 = reddit_comments d
       \<and> (\<exists>c'. process_submissions e B d1 = (r, d1, c'))"
proof (cases B)
  case EmptyList
  with run show ?thesis by (auto simp: process_submissions_EmptyList)
next
  case (DataFrame rows)
  let ?new = "\<lambda>x. filter (\<lambda>r. s_submission_id r \<notin> set (map sm_submission_id (reddit_submissions x))) rows"
  show ?thesis
  proof (cases "?new d = []")
    case True
    with run DataFrame have "d1 = d" by (simp add: process_submissions_DataFrame)
    with run show ?thesis by auto
  next
    case False
    obtain ru du cu where upd: "update_subreddits e (map s_subreddit (?new d)) False d = (ru, du, cu)"
      by (cases "update_subreddits e (map s_subreddit (?new d)) False d") auto
    show ?thesis
    proof (cases ru)
      case (Inl x)
      from update_subreddits_Inl[OF upd[unfolded Inl]] have "du = d" .
      with run DataFrame False upd Inl have "d1 = d"
        by (simp add: process_submissions_DataFrame)
      with run show ?thesis by auto
    next
      case (Inr u)
      from run DataFrame False upd Inr have d1: "d1 = du"
        by (auto simp: process_submissions_DataFrame split: sum.splits)
      from update_subreddits_Inr[OF upd[unfolded Inr]]
      have stored: "set (map s_subreddit (?new d)) \<subseteq> set (map sr_name (subreddits du))"
        and subs: "reddit_submissions du = reddit_submissions d"
        and coms: "reddit_comments du = reddit_comments d"
        by simp_all
      from subs have new: "?new du = ?new d" by simp
      have upd2: "update_subreddits e (map s_subreddit (?new du)) False du
                    = (Inr (), du, get_values_calls Subreddits)"
        unfolding new by (rule update_subreddits_all_stored[OF stored])
      from run DataFrame False upd Inr
      have r: "r = (case apply_rows (subreddit_to_id (subreddits du)) (?new d) of
                      Inl x \<Rightarrow> Inl x
                    | Inr mapped \<Rightarrow> Inr (map (\<lambda>r. r\<lparr>n_title := clean_text e (n_title r)\<rparr>) mapped))"
        by (auto simp: process_submissions_DataFrame split: sum.splits)
      have "\<exists>c'. process_submissions e (DataFrame rows) du = (r, du, c')"
        unfolding process_submissions_DataFrame using False upd2 r new
        by (auto split: sum.splits)
      with d1 subs coms DataFrame show ?thesis by simp
    qed
  qed
qed

lemma insert_values_submissions_Inl:
  "insert_values_submissions vals d = (Inl x, d', cs) \<Longrightarrow> d' = d"
  by (auto simp: insert_values_submissions_def with_session_def bulk_insert_submissions_def
      split: if_splits)

lemma insert_values_submissions_Inr:
  assumes "insert_values_submissions vals d = (Inr u, d', cs)"
  shows "map sm_submission_id (reddit_submissions d') =
           map sm_submission_id (reddit_submissions d) @ map n_submission_id vals"
proof -
  have ids: "map (sm_submission_id \<circ> (\<lambda>(i, m). \<lparr>sm_id = i, sm_ticker = n_ticker m,
                              sm_subreddit_id = IntCell (n_subreddit_id m),
                              sm_submission_id = n_submission_id m,
                              sm_created_utc = n_created_utc m, sm_title = n_title m,
                              sm_score = n_score m\<rparr>)) (number_from n vals)
             = map n_submission_id vals" for n
    by (induction vals arbitrary: n) simp_all
  from assms show ?thesis
    by (auto simp: insert_values_submissions_def with_session_def bulk_insert_submissions_def
        ids split: if_splits)
qed

lemma store_fetched_all_stored:
  assumes "set (map s_submission_id rows) \<subseteq> set (map sm_submission_id (reddit_submissions d))"
  shows "store_fetched e (DataFrame rows) d = (Inr (), d, get_values_calls RedditSubmissions)"
proof -
  from assms
  have "filter (\<lambda>r. s_submission_id r \<notin> set (map sm_submission_id (reddit_submissions d))) rows = []"
    by (auto simp: filter_empty_conv)
  then have "process_submissions e (DataFrame rows) d = (Inr [], d, get_values_calls RedditSubmissions)"
    by (simp add: process_submissions_DataFrame)
  then show ?thesis by (simp add: store_fetched_def and_then_def)
qed


lemma store_fetched_unfold:
  assumes "process_submissions e B d = (rp, dp, cp)"
  shows "store_fetched e B d =
     (case rp of
        Inl x \<Rightarrow> (Inl x, dp, cp)
      | Inr processed \<Rightarrow>
          (if processed = [] then (Inr (), dp, cp)
           else
             (case insert_values_submissions processed dp of
                (Inl x, d2, c2) \<Rightarrow> (Inl x, d2, cp @ c2)
              | (Inr u, d2, c2) \<Rightarrow>
                  (case (case get_comments e (map n_submission_id processed) of
                           Inl x \<Rightarrow> (Inl x, d2, [])
                         | Inr comments \<Rightarrow>
                             and_then (process_comments e comments d2)
                               (\<lambda>processed_comments d3.
                                  if processed_comments \<noteq> []
                                  then insert_values_comments processed_comments d3
                                  else (Inr (), d3, []))) of
                     (r3, d3, c3) \<Rightarrow> (r3, d3, cp @ c2 @ c3)))))"
  using assms
  by (simp add: store_fetched_def and_then_def split: sum.splits prod.splits)

lemma comment_steps_keep_submissions:
  "reddit_submissions
     (fst (snd (case get_comments e ids of
                  Inl x \<Rightarrow> (Inl x, d2, [])
                | Inr comments \<Rightarrow>
                    and_then (process_comments e comments d2)
                      (\<lambda>processed_comments d3.
                         if processed_comments \<noteq> []
                         then insert_values_comments processed_comments d3
                         else (Inr (), d3, [])))))
   = reddit_submissions d2"
proof (cases "get_comments e ids")
  case (Inl x)
  then show ?thesis by simp
next
  case (Inr comments)
  have "reddit_submissions
          (fst (snd (and_then (process_comments e comments d2)
                      (\<lambda>processed_comments d3.
                         if processed_comments \<noteq> []
                         then insert_values_comments processed_comments d3
                         else (Inr (), d3, [])))))
        = reddit_submissions d2"
    by (rule and_then_db_invariant)
      (simp_all add: process_comments_db insert_values_comments_submissions)
  with Inr show ?thesis by simp
qed

lemma store_fetched_again:
  assumes run: "store_fetched e B d = (r1, d1, c1)"
  shows "\<exists>r2 c2. store_fetched e B d1 = (r2, d1, c2)"
proof -
  obtain rp dp cp where ps: "process_submissions e B d = (rp, dp, cp)"
    by (cases "process_submissions e B d") auto
  from process_submissions_again[OF ps]
  obtain cp' where subs: "reddit_submissions dp = reddit_submissions d"
    and ps': "process_submissions e B dp = (rp, dp, cp')"
    by blast
  note first = run[unfolded store_fetched_unfold[OF ps]]
  note second = store_fetched_unfold[OF ps']
  show ?thesis
  proof (cases rp)
    case (Inl x)
    with first have "d1 = dp" by simp
    with second Inl show ?thesis by simp
  next
    case (Inr processed)
    show ?thesis
    proof (cases "processed = []")
      case True
      with first Inr have "d1 = dp" by simp
      with second Inr True show ?thesis by simp
    next
      case False
      obtain ri di ci where ins: "insert_values_submissions processed dp = (ri, di, ci)"
        by (cases "insert_values_submissions processed dp") auto
      show ?thesis
      proof (cases ri)
        case (Inl x)
        from insert_values_submissions_Inl[OF ins[unfolded Inl]] have "di = dp" .
        with first Inr False ins Inl have "d1 = dp" by simp
        with second Inr False ins Inl \<open>di = dp\<close> show ?thesis by simp
      next
        case inserted: (Inr u)
        from ps Inr False obtain rows where B: "B = DataFrame rows"
          by (cases B) (auto simp: process_submissions_EmptyList)
        let ?tail = "case get_comments e (map n_submission_id processed) of
                       Inl x \<Rightarrow> (Inl x, di, [])
                     | Inr comments \<Rightarrow>
                         and_then (process_comments e comments di)
                           (\<lambda>processed_comments d3.
                              if processed_comments \<noteq> []
                              then insert_values_comments processed_comments d3
                              else (Inr (), d3, []))"
        from first Inr False ins inserted have d1: "d1 = fst (snd ?tail)"
          by (auto split: prod.splits)
        have "reddit_submissions d1 = reddit_submissions di"
          unfolding d1 by (rule comment_steps_keep_submissions)
        with insert_values_submissions_Inr[OF ins[unfolded inserted]]
        have stored: "map sm_submission_id (reddit_submissions d1)
                        = map sm_submission_id (reddit_submissions dp) @ map n_submission_id processed"
          by simp
        from process_submissions_ids[OF ps[unfolded B Inr]]
        have ids: "map n_submission_id processed =
                     map s_submission_id
                       (filter (\<lambda>r. s_submission_id r
                                       \<notin> set (map sm_submission_id (reddit_submissions d))) rows)" .
        have "set (map s_submission_id rows) \<subseteq> set (map sm_submission_id (reddit_submissions d1))"
          unfolding stored ids subs by auto
        from store_fetched_all_stored[OF this, of e] B show ?thesis by simp
      qed
    qed
  qed
qed

lemma store_fetched_again_normal:
  assumes run: "store_fetched e B d = (Inr u, d1, c1)"
  shows "store_fetched e B d1 = (Inr (), d1, get_values_calls RedditSubmissions)"
proof -
  obtain rp dp cp where ps: "process_submissions e B d = (rp, dp, cp)"
    by (cases "process_submissions e B d") auto
  note first = run[unfolded store_fetched_unfold[OF ps]]
  from first obtain processed where Inr: "rp = Inr processed"
    by (cases rp) auto
  from ps Inr obtain rows where B: "B = DataFrame rows"
    by (cases B) (auto simp: process_submissions_EmptyList)
  from process_submissions_ids[OF ps[unfolded B Inr]]
  have ids: "map n_submission_id processed =
               map s_submission_id
                 (filter (\<lambda>r. s_submission_id r
                                 \<notin> set (map sm_submission_id (reddit_submissions d))) rows)" .
  show ?thesis
  proof (cases "processed = []")
    case True
    with ids have "filter (\<lambda>r. s_submission_id r
                     \<notin> set (map sm_submission_id (reddit_submissions d))) rows = []"
      by simp
    then have all: "set (map s_submission_id rows) \<subseteq> set (map sm_submission_id (reddit_submissions d))"
      by (auto simp: filter_empty_conv)
    from store_fetched_all_stored[OF all, of e] run B have "d1 = d" by simp
    with store_fetched_all_stored[OF all, of e] B show ?thesis by simp
  next
    case False
    from process_submissions_again[OF ps]
    have subs: "reddit_submissions dp = reddit_submissions d" by blast
    obtain ri di ci where ins: "insert_values_submissions processed dp = (ri, di, ci)"
      by (cases "insert_values_submissions processed dp") auto
    from first Inr False ins obtain v where inserted: "ri = Inr v"
      by (cases ri) auto
    let ?tail = "case get_comments e (map n_submission_id processed) of
                   Inl x \<Rightarrow> (Inl x, di, [])
                 | Inr comments \<Rightarrow>
                     and_then (process_comments e comments di)
                       (\<lambda>processed_comments d3.
                          if processed_comments \<noteq> []
                          then insert_values_comments processed_comments d3
                          else (Inr (), d3, []))"
    from first Inr False ins inserted have d1: "d1 = fst (snd ?tail)"
      by (auto split: prod.splits)
    have "reddit_submissions d1 = reddit_submissions di"
      unfolding d1 by (rule comment_steps_keep_submissions)
    with insert_values_submissions_Inr[OF ins[unfolded inserted]]
    have stored: "map sm_submission_id (reddit_submissions d1)
                    = map sm_submission_id (reddit_submissions dp) @ map n_submission_id processed"
      by simp
    have "set (map s_submission_id rows) \<subseteq> set (map sm_submission_id (reddit_submissions d1))"
      unfolding stored ids subs by auto
    from store_fetched_all_stored[OF this, of e] B show ?thesis by simp
  qed
qed

text \<open>
  C8. If \<open>fetch_data\<close> returns, normally or with an exception, and is invoked again
  with the same arguments against the same source, the second invocation returns too and
  leaves the store exactly as the first left it: no submission and no comment is added.
  After a first invocation that returned normally, the second returns normally and its
  only store call is the read of the submissions table for the dedup filter, which
  removes the whole batch: no bulk insert is issued, for submissions or for comments.
  (After a first invocation that raised, a rejected bulk insert leaves the table as it
  was.)
\<close>

theorem fetch_data_twice_inserts_nothing:
  assumes "fetch_data e ticker limit before after subreddit_names d = Some (r1, d1, c1)"
  shows "(\<exists>r2 c2. fetch_data e ticker limit before after subreddit_names d1 = Some (r2, d1, c2))
         \<and> (r1 = Inr () \<longrightarrow>
              fetch_data e ticker limit before after subreddit_names d1 =
                Some (Inr (), d1, [SessionOpen, Commit, Close, ReadSql RedditSubmissions]))"
proof -
  let ?ps = "\<lparr>q_ticker = ticker, q_subreddit = subreddit_names,
              q_before = PStr (strftime_s before), q_after = PStr (strftime_s after),
              q_limit = limit\<rparr>"
  show ?thesis
  proof (cases "get_submissions e ?ps")
    case None
    with assms show ?thesis by (simp add: fetch_data_def)
  next
    case (Some res)
    show ?thesis
    proof (cases res)
      case (Inl x)
      with Some assms have "d1 = d" and "r1 = Inl x" by (simp_all add: fetch_data_def)
      with Some Inl show ?thesis by (simp add: fetch_data_def)
    next
      case (Inr B)
      with Some assms have run: "store_fetched e B d = (r1, d1, c1)" by (simp add: fetch_data_def)
      from store_fetched_again[OF run] obtain r2 c2 where "store_fetched e B d1 = (r2, d1, c2)"
        by blast
      with Some Inr
      have again: "\<exists>r2 c2. fetch_data e ticker limit before after subreddit_names d1 = Some (r2, d1, c2)"
        by (simp add: fetch_data_def)
      have "fetch_data e ticker limit before after subreddit_names d1 =
              Some (Inr (), d1, [SessionOpen, Commit, Close, ReadSql RedditSubmissions])"
        if "r1 = Inr ()"
        using store_fetched_again_normal[OF run[unfolded that]] Some Inr
        by (simp add: fetch_data_def get_values_calls_def)
      with again show ?thesis by blast
    qed
  qed
qed

text \<open>
  The first invocation on the empty store inserts one submission and two comments; the
  second only reads.
\<close>

theorem fetch_data_twice_inserts_nothing_witness:
  "fetch_data example_env ''GME'' 1 100000 0 [''wallstreetbets''] empty_db
     = Some (Inr (), example_db_after_fetch, example_fetch_calls)
   \<and> fetch_data example_env ''GME'' 1 100000 0 [''wallstreetbets''] example_db_after_fetch
     = Some (Inr (), example_db_after_fetch, [SessionOpen, Commit, Close, ReadSql RedditSubmissions])
   \<and> BulkInsert RedditSubmissions 1 \<in> set example_fetch_calls
   \<and> BulkInsert RedditComments 2 \<in> set example_fetch_calls"
  using fetch_data_twice_inserts_nothing[OF example_fetch_into_empty_store]
    example_fetch_into_empty_store
  by (simp add: example_fetch_calls_def)

end
